theory Spec2Isabelle
  imports Complex_Main "HOL-Library.AList"
begin

section \<open>Iron Fog: the simulation core of \<^verbatim>\<open>server/server.py\<close>\<close>

text \<open>
  The server keeps one \<^verbatim>\<open>GameState\<close> object and mutates it from command handlers and
  from the fixed-rate tick. The embedding below passes the state explicitly. Python
  \<^verbatim>\<open>float\<close> fields are modelled as \<^typ>\<open>real\<close> (exact arithmetic), Python \<^verbatim>\<open>int\<close> as
  \<^typ>\<open>int\<close>, dictionaries as association lists in insertion order, and the three
  outside inputs of the code (the wall clock, fresh identifiers and the random
  generator) as explicit arguments.
\<close>

subsection \<open>Constants\<close>

definition FUEL_PER_HEX :: real where "FUEL_PER_HEX = 4"
definition AMMO_SHOOT :: real where "AMMO_SHOOT = 8"
definition SHELL_SPEED :: real where "SHELL_SPEED = 5 / 2"
definition SHELL_DAMAGE :: int where "SHELL_DAMAGE = 40"
definition CAPTURE_TIME :: real where "CAPTURE_TIME = 5"
definition FORT_FUEL_GEN :: real where "FORT_FUEL_GEN = 12 / 10"
definition FORT_AMMO_GEN :: real where "FORT_AMMO_GEN = 9 / 10"
definition FORT_GEAR_GEN :: real where "FORT_GEAR_GEN = 1 / 10"
definition MOVE_SPEED_BASE :: real where "MOVE_SPEED_BASE = 5 / 2"
definition FOG_RANGE :: int where "FOG_RANGE = 3"
definition LOOT_FUEL_FLOOR :: real where "LOOT_FUEL_FLOOR = 15"
definition LOOT_AMMO_FLOOR :: real where "LOOT_AMMO_FLOOR = 10"
definition LOOT_GEAR_FLOOR :: real where "LOOT_GEAR_FLOOR = 0"
definition FORT_RELEASE_KEEP :: nat where "FORT_RELEASE_KEEP = 2"
definition TANK_MAX_HP :: int where "TANK_MAX_HP = 100"
definition RESPAWN_TIME :: real where "RESPAWN_TIME = 8"
definition FIRE_COOLDOWN :: real where "FIRE_COOLDOWN = 8 / 10"
definition MATCH_TIME :: real where "MATCH_TIME = 600"
definition POST_MATCH_TIME :: real where "POST_MATCH_TIME = 10"
definition UPGRADE_MAX_LVL :: nat where "UPGRADE_MAX_LVL = 3"

lemmas constants =
  FUEL_PER_HEX_def AMMO_SHOOT_def SHELL_SPEED_def SHELL_DAMAGE_def CAPTURE_TIME_def
  FORT_FUEL_GEN_def FORT_AMMO_GEN_def FORT_GEAR_GEN_def MOVE_SPEED_BASE_def FOG_RANGE_def
  LOOT_FUEL_FLOOR_def LOOT_AMMO_FLOOR_def LOOT_GEAR_FLOOR_def FORT_RELEASE_KEEP_def
  TANK_MAX_HP_def RESPAWN_TIME_def FIRE_COOLDOWN_def MATCH_TIME_def POST_MATCH_TIME_def
  UPGRADE_MAX_LVL_def

subsection \<open>Hex math\<close>

type_synonym cell = "int \<times> int"

text \<open>\<^verbatim>\<open>hex_distance(a, b)\<close>: Python's \<^verbatim>\<open>//\<close> is floor division, as \<open>div\<close> on \<^typ>\<open>int\<close>.\<close>

definition hex_distance :: "cell \<Rightarrow> cell \<Rightarrow> int" where
  "hex_distance a b =
     (\<bar>fst a - fst b\<bar> + \<bar>fst a + snd a - fst b - snd b\<bar> + \<bar>snd a - snd b\<bar>) div 2"

text \<open>
  \<^verbatim>\<open>hex_range(center, radius)\<close>: the two nested \<^verbatim>\<open>range\<close> loops; \<^verbatim>\<open>range(lo, hi+1)\<close> is
  the interval \<open>[lo..hi]\<close>, empty when \<open>hi < lo\<close>.
\<close>

definition hex_range :: "cell \<Rightarrow> int \<Rightarrow> cell list" where
  "hex_range center radius =
     concat (map (\<lambda>dq. map (\<lambda>dr. (fst center + dq, snd center + dr))
                              [max (- radius) (- dq - radius) .. min radius (- dq + radius)])
                 [- radius .. radius])"

text \<open>Python's \<^verbatim>\<open>round\<close> on a float rounds to the nearest integer, halves to the even one.\<close>

definition py_round :: "real \<Rightarrow> int" where
  "py_round x =
     (let f = \<lfloor>x\<rfloor>; d = x - of_int f
      in if d < 1 / 2 then f else if 1 / 2 < d then f + 1 else if even f then f else f + 1)"

subsection \<open>Game objects\<close>

text \<open>
  The dataclasses \<^verbatim>\<open>Fort\<close>, \<^verbatim>\<open>Shell\<close> and \<^verbatim>\<open>Tank\<close>. The fields \<^verbatim>\<open>id\<close>, \<^verbatim>\<open>q\<close> and \<^verbatim>\<open>r\<close>
  occur in all three and carry the class name here. \<^verbatim>\<open>Optional[str]\<close> is an option.
  Upgrade levels start absent and are only ever incremented, so they are natural numbers.
\<close>

record fort =
  fort_id :: string
  fort_q :: int
  fort_r :: int
  ftype :: string
  owner :: "string option"
  capture_progress :: real
  capturing_player :: "string option"
  was_owned :: bool

record shell =
  shell_id :: string
  owner_id :: string
  shell_q :: real
  shell_r :: real
  shell_target_q :: int
  shell_target_r :: int
  speed :: real
  damage :: int
  created :: real

record tank =
  tank_id :: string
  player_id :: string
  tank_q :: real
  tank_r :: real
  target_q :: "int option"
  target_r :: "int option"
  path :: "cell list"
  hp :: int
  max_hp :: int
  fuel :: real
  ammo :: real
  gears :: real
  move_speed :: real
  vision :: int
  shell_damage :: int
  ammo_cost :: real
  alive :: bool
  respawn_timer :: real
  color :: string
  facing :: real
  upgrades :: "(string \<times> nat) list"
  last_shot :: real
  score :: int
  kills :: int
  deaths :: int
  fort_captures :: int

record player =
  pl_id :: string
  pl_name :: string
  pl_color :: string
  pl_ws_id :: string

datatype event =
    Killfeed string string string string real
  | Capturefeed string string string real

text \<open>
  \<^verbatim>\<open>GameState\<close>: the fields the commands and the tick read or write. Dictionaries keep
  their insertion order, which the loops over \<^verbatim>\<open>.items()\<close> and \<^verbatim>\<open>.values()\<close> follow.
  The field \<^verbatim>\<open>tick\<close> is \<open>tick_counter\<close> here, since the record would otherwise claim the
  name of the method \<^verbatim>\<open>tick_update\<close>.
\<close>

record game_state =
  players :: "(string \<times> player) list"
  tanks :: "(string \<times> tank) list"
  forts :: "(string \<times> fort) list"
  shells :: "(string \<times> shell) list"
  tick_counter :: int
  match_timer :: real
  match_over :: bool
  post_match_timer :: real
  pending_events :: "event list"
  rematch_votes :: "string set"

text \<open>A command's result dictionary: \<^verbatim>\<open>{"error": msg}\<close> or \<^verbatim>\<open>{"ok": True, ...}\<close>.\<close>

datatype reply =
    Error string
  | MoveOk "cell list option"
  | ShootOk string
  | UpgradeOk string nat nat
  | VoteOk nat nat

definition put_tank :: "string \<Rightarrow> tank \<Rightarrow> game_state \<Rightarrow> game_state" where
  "put_tank pid t s = s\<lparr>tanks := AList.update pid t (tanks s)\<rparr>"

text \<open>\<^verbatim>\<open>tank.upgrades.get(name, 0)\<close>\<close>

definition upgrade_level :: "tank \<Rightarrow> string \<Rightarrow> nat" where
  "upgrade_level t name = (case map_of (upgrades t) name of None \<Rightarrow> 0 | Some l \<Rightarrow> l)"

text \<open>Truth value of an \<^verbatim>\<open>Optional[str]\<close>: \<^verbatim>\<open>None\<close> and the empty string are false.\<close>

definition truthy :: "string option \<Rightarrow> bool" where
  "truthy x = (case x of None \<Rightarrow> False | Some v \<Rightarrow> v \<noteq> [])"

text \<open>
  The first player record with the given id and its name and colour, with the defaults
  the feed events use when there is none.
\<close>

definition player_info :: "game_state \<Rightarrow> string \<Rightarrow> player option" where
  "player_info s pid = find (\<lambda>p. pl_id p = pid) (map snd (players s))"

definition info_name :: "player option \<Rightarrow> string" where
  "info_name i = (case i of None \<Rightarrow> ''?'' | Some p \<Rightarrow> pl_name p)"

definition info_color :: "string \<Rightarrow> player option \<Rightarrow> string" where
  "info_color dflt i = (case i of None \<Rightarrow> dflt | Some p \<Rightarrow> pl_color p)"

subsection \<open>Match reset\<close>

definition end_match :: "game_state \<Rightarrow> game_state" where
  "end_match s = s\<lparr>match_over := True, post_match_timer := POST_MATCH_TIME\<rparr>"

definition reset_tank :: "tank \<Rightarrow> tank" where
  "reset_tank t =
     t\<lparr>hp := TANK_MAX_HP, max_hp := TANK_MAX_HP, fuel := 80, ammo := 50, gears := 0,
       move_speed := MOVE_SPEED_BASE, vision := FOG_RANGE, shell_damage := SHELL_DAMAGE,
       ammo_cost := AMMO_SHOOT, alive := True, respawn_timer := 0, path := [],
       upgrades := [], score := 0, kills := 0, deaths := 0, fort_captures := 0\<rparr>"

definition reset_fort :: "fort \<Rightarrow> fort" where
  "reset_fort f =
     f\<lparr>owner := None, capture_progress := 0, capturing_player := None, was_owned := False\<rparr>"

definition reset_match :: "game_state \<Rightarrow> game_state" where
  "reset_match s =
     s\<lparr>tanks := map (\<lambda>(pid, t). (pid, reset_tank t)) (tanks s),
       forts := map (\<lambda>(fid, f). (fid, reset_fort f)) (forts s),
       shells := [], pending_events := [],
       match_timer := MATCH_TIME, match_over := False, rematch_votes := {}\<rparr>"

subsection \<open>Commands\<close>

text \<open>\<^verbatim>\<open>GameState.set_tank_path\<close>\<close>

definition set_tank_path :: "string \<Rightarrow> cell list \<Rightarrow> game_state \<Rightarrow> reply \<times> game_state" where
  "set_tank_path pid new_path s =
     (case map_of (tanks s) pid of
        None \<Rightarrow> (Error ''tank not available'', s)
      | Some t \<Rightarrow>
          if \<not> alive t then (Error ''tank not available'', s)
          else if new_path = [] then
            (MoveOk None, put_tank pid (t\<lparr>path := [], target_q := None, target_r := None\<rparr>) s)
          else
            (MoveOk (Some new_path),
             put_tank pid (t\<lparr>path := new_path, target_q := Some (fst (last new_path)),
                              target_r := Some (snd (last new_path))\<rparr>) s))"

text \<open>
  \<^verbatim>\<open>GameState.shoot\<close>. \<open>now\<close> is the value of \<^verbatim>\<open>time.time()\<close> during the call and \<open>sid\<close> the
  fresh identifier drawn for the shell. The assignment to \<^verbatim>\<open>last_shot\<close> sits between the
  cooldown check and the ammunition check, as in the source.
\<close>

definition shoot ::
  "real \<Rightarrow> string \<Rightarrow> string \<Rightarrow> int \<Rightarrow> int \<Rightarrow> game_state \<Rightarrow> reply \<times> game_state" where
  "shoot now sid pid tq tr s =
     (case map_of (tanks s) pid of
        None \<Rightarrow> (Error ''tank not available'', s)
      | Some t \<Rightarrow>
          if \<not> alive t then (Error ''tank not available'', s)
          else if now - last_shot t < FIRE_COOLDOWN then (Error ''cooldown'', s)
          else
            let t1 = t\<lparr>last_shot := now\<rparr>;
                s1 = put_tank pid t1 s
            in if ammo t1 < ammo_cost t1 then (Error ''not enough ammo'', s1)
               else
                 let dist = hex_distance (py_round (tank_q t1), py_round (tank_r t1)) (tq, tr);
                     max_range = 5 + int (upgrade_level t1 ''cannon'')
                 in if dist > max_range then (Error ''out of range'', s1)
                    else
                      let t2 = t1\<lparr>ammo := ammo t1 - ammo_cost t1\<rparr>;
                          sh = \<lparr>shell_id = sid, owner_id = pid,
                                shell_q = tank_q t2, shell_r = tank_r t2,
                                shell_target_q = tq, shell_target_r = tr,
                                speed = SHELL_SPEED,
                                damage = shell_damage t2 + int (upgrade_level t2 ''cannon'') * 5,
                                created = now\<rparr>;
                          s2 = put_tank pid t2 s1
                      in (ShootOk sid, s2\<lparr>shells := AList.update sid sh (shells s2)\<rparr>))"

text \<open>\<^verbatim>\<open>UPGRADE_COSTS\<close>, and the per-level gear prices \<^verbatim>\<open>lvl_costs\<close> of \<^verbatim>\<open>upgrade\<close>.\<close>

definition UPGRADE_COSTS :: "(string \<times> (int \<times> string)) list" where
  "UPGRADE_COSTS =
     [(''engine'', (5, ''Move 20% faster'')),
      (''armor'', (5, ''+20 max HP'')),
      (''cannon'', (5, ''+10 shell damage'')),
      (''sensor'', (5, ''+1 vision range'')),
      (''loader'', (5, ''-2 ammo cost per shot''))]"

definition lvl_costs :: "real list" where
  "lvl_costs = [5, 10, 18]"

text \<open>The stat change of one upgrade level, the \<^verbatim>\<open>if/elif\<close> chain at the end of \<^verbatim>\<open>upgrade\<close>.\<close>

definition apply_effect :: "string \<Rightarrow> tank \<Rightarrow> tank" where
  "apply_effect upgrade_type t =
     (if upgrade_type = ''engine'' then t\<lparr>move_speed := move_speed t + 4 / 10\<rparr>
      else if upgrade_type = ''armor'' then
        t\<lparr>max_hp := max_hp t + 20, hp := min (hp t + 20) (max_hp t + 20)\<rparr>
      else if upgrade_type = ''cannon'' then t\<lparr>shell_damage := shell_damage t + 10\<rparr>
      else if upgrade_type = ''sensor'' then t\<lparr>vision := vision t + 1\<rparr>
      else if upgrade_type = ''loader'' then t\<lparr>ammo_cost := max 2 (ammo_cost t - 2)\<rparr>
      else t)"

text \<open>\<^verbatim>\<open>GameState.upgrade\<close>: the tank is looked up, never tested for being alive.\<close>

definition upgrade :: "string \<Rightarrow> string \<Rightarrow> game_state \<Rightarrow> reply \<times> game_state" where
  "upgrade pid upgrade_type s =
     (case map_of (tanks s) pid of
        None \<Rightarrow> (Error ''no tank'', s)
      | Some t \<Rightarrow>
          (case map_of UPGRADE_COSTS upgrade_type of
             None \<Rightarrow> (Error ''unknown upgrade'', s)
           | Some cost \<Rightarrow>
               let current_lvl = upgrade_level t upgrade_type
               in if current_lvl \<ge> UPGRADE_MAX_LVL then (Error ''max level reached'', s)
                  else
                    let gear_cost = lvl_costs ! current_lvl
                    in if gears t < gear_cost then (Error ''not enough gears'', s)
                       else
                         let lvl = current_lvl + 1;
                             t1 = t\<lparr>gears := gears t - gear_cost,
                                    upgrades := AList.update upgrade_type lvl (upgrades t)\<rparr>
                         in (UpgradeOk upgrade_type lvl UPGRADE_MAX_LVL,
                             put_tank pid (apply_effect upgrade_type t1) s)))"

text \<open>\<^verbatim>\<open>GameState.cast_vote\<close>\<close>

definition cast_vote :: "string \<Rightarrow> game_state \<Rightarrow> reply \<times> game_state" where
  "cast_vote pid s =
     (if \<not> match_over s then (Error ''match not over'', s)
      else
        let s1 = s\<lparr>rematch_votes := insert pid (rematch_votes s)\<rparr>;
            total = length (tanks s1);
            cast = card (rematch_votes s1)
        in (VoteOk cast total, if cast \<ge> total \<and> total > 0 then reset_match s1 else s1))"

subsection \<open>Tank movement\<close>

text \<open>\<^verbatim>\<open>math.atan2(y, x)\<close>\<close>

definition atan2 :: "real \<Rightarrow> real \<Rightarrow> real" where
  "atan2 y x =
     (if 0 < x then arctan (y / x)
      else if x < 0 then (if 0 \<le> y then arctan (y / x) + pi else arctan (y / x) - pi)
      else if 0 < y then pi / 2 else if y < 0 then - pi / 2 else 0)"

text \<open>
  The body of the loop of \<^verbatim>\<open>_move_tanks\<close> for one tank. \<open>None\<close> is the
  \<^verbatim>\<open>ZeroDivisionError\<close> of \<^verbatim>\<open>dq/dist\<close>, raised when the tank stands on its waypoint and
  the step is negative.
\<close>

definition move_tank :: "real \<Rightarrow> tank \<Rightarrow> tank option" where
  "move_tank dt t =
     (if \<not> alive t then Some t
      else case path t of
        [] \<Rightarrow> Some t
      | (next_q, next_r) # rest \<Rightarrow>
          let dq = of_int next_q - tank_q t;
              dr = of_int next_r - tank_r t;
              dist = sqrt (dq * dq + dr * dr);
              step = move_speed t * dt
          in if dist \<le> step then
               (if fuel t < FUEL_PER_HEX then
                  Some (t\<lparr>path := [], target_q := None, target_r := None\<rparr>)
                else
                  let t1 = t\<lparr>fuel := fuel t - FUEL_PER_HEX, tank_q := of_int next_q,
                             tank_r := of_int next_r, path := rest\<rparr>
                  in if path t1 = [] then Some (t1\<lparr>target_q := None, target_r := None\<rparr>)
                     else Some t1)
             else if dist = 0 then None
             else Some (t\<lparr>facing := atan2 dr dq,
                           tank_q := tank_q t + (dq / dist) * step,
                           tank_r := tank_r t + (dr / dist) * step\<rparr>))"

fun move_tanks_list :: "real \<Rightarrow> (string \<times> tank) list \<Rightarrow> (string \<times> tank) list option" where
  "move_tanks_list dt [] = Some []"
| "move_tanks_list dt ((pid, t) # rest) =
     (case move_tank dt t of
        None \<Rightarrow> None
      | Some t' \<Rightarrow>
          (case move_tanks_list dt rest of
             None \<Rightarrow> None
           | Some rest' \<Rightarrow> Some ((pid, t') # rest')))"

definition move_tanks :: "real \<Rightarrow> game_state \<Rightarrow> game_state option" where
  "move_tanks dt s =
     (case move_tanks_list dt (tanks s) of
        None \<Rightarrow> None
      | Some ts \<Rightarrow> Some (s\<lparr>tanks := ts\<rparr>))"

subsection \<open>Shell impact\<close>

text \<open>
  The random generator is a sequence of samples of \<^verbatim>\<open>random.random()\<close>, each in
  \<open>[0, 1)\<close>, read at a running index; \<^verbatim>\<open>random.uniform(a, b)\<close> is
  \<^verbatim>\<open>a + (b-a) * random()\<close>.
\<close>

type_synonym rng = "nat \<Rightarrow> real"

definition uniform :: "rng \<Rightarrow> nat \<Rightarrow> real \<Rightarrow> real \<Rightarrow> real" where
  "uniform g i a b = a + (b - a) * g i"

text \<open>The amount a victim loses of one resource: \<^verbatim>\<open>max(0, min(x * ratio, x - floor))\<close>.\<close>

definition loot_lost :: "real \<Rightarrow> real \<Rightarrow> real \<Rightarrow> real" where
  "loot_lost amount ratio floor_v = max 0 (min (amount * ratio) (amount - floor_v))"

definition apply_loot :: "real \<Rightarrow> real \<Rightarrow> real \<Rightarrow> tank \<Rightarrow> tank" where
  "apply_loot fuel_ratio ammo_ratio gear_ratio t =
     (let fuel_lost = loot_lost (fuel t) fuel_ratio LOOT_FUEL_FLOOR;
          ammo_lost = loot_lost (ammo t) ammo_ratio LOOT_AMMO_FLOOR;
          gear_lost = loot_lost (gears t) gear_ratio LOOT_GEAR_FLOOR
      in t\<lparr>fuel := max LOOT_FUEL_FLOOR (fuel t - fuel_lost),
            ammo := max LOOT_AMMO_FLOOR (ammo t - ammo_lost),
            gears := max LOOT_GEAR_FLOOR (gears t - gear_lost)\<rparr>)"

text \<open>
  Fort release on death. The victim's forts are sorted by the coordinate-offset distance
  to the victim, largest first (\<^verbatim>\<open>reverse=True\<close>; Python's sort is stable, also when
  reversed), and the slice \<^verbatim>\<open>victim_forts[FORT_RELEASE_KEEP:]\<close> is released.
\<close>

definition offset_distance :: "tank \<Rightarrow> fort \<Rightarrow> real" where
  "offset_distance t f = \<bar>of_int (fort_q f) - tank_q t\<bar> + \<bar>of_int (fort_r f) - tank_r t\<bar>"

definition release_fort :: "fort \<Rightarrow> fort" where
  "release_fort f = f\<lparr>owner := None, capture_progress := 0, capturing_player := None\<rparr>"

definition forts_to_release :: "string \<Rightarrow> tank \<Rightarrow> (string \<times> fort) list \<Rightarrow> string list" where
  "forts_to_release pid t fs =
     (let victim_forts = filter (\<lambda>(fid, f). owner f = Some pid) fs
      in if length victim_forts > FORT_RELEASE_KEEP then
           map fst (drop FORT_RELEASE_KEEP
                      (sort_key (\<lambda>(fid, f). - offset_distance t f) victim_forts))
         else [])"

definition release_forts :: "string \<Rightarrow> tank \<Rightarrow> (string \<times> fort) list \<Rightarrow> (string \<times> fort) list" where
  "release_forts pid t fs =
     map (\<lambda>(fid, f). if fid \<in> set (forts_to_release pid t fs) then (fid, release_fort f)
                      else (fid, f)) fs"

text \<open>
  One iteration of the loop of \<^verbatim>\<open>_shell_impact\<close>, for the tank stored under \<open>pid\<close>. The
  victim and the shooter are different entries (\<^verbatim>\<open>pid == shell.owner_id\<close> is skipped),
  so both are written back after the branch. The loot, the killer's gears and the fort
  release happen only under \<^verbatim>\<open>if shooter:\<close>; the feed event is queued in either case.
\<close>

definition impact_tank :: "rng \<Rightarrow> real \<Rightarrow> shell \<Rightarrow> string \<Rightarrow> game_state \<times> nat \<Rightarrow> game_state \<times> nat" where
  "impact_tank g now sh pid = (\<lambda>(s, i).
     (case map_of (tanks s) pid of
        None \<Rightarrow> (s, i)
      | Some t \<Rightarrow>
          if pid = owner_id sh \<or> \<not> alive t then (s, i)
          else if hex_distance (py_round (tank_q t), py_round (tank_r t))
                    (shell_target_q sh, shell_target_r sh) \<le> 1 then
            (let t1 = t\<lparr>hp := hp t - damage sh\<rparr>
             in if hp t1 \<le> 0 then
                  (let victim = t1\<lparr>hp := 0, alive := False, respawn_timer := RESPAWN_TIME,
                                   path := []\<rparr>;
                       ev = Killfeed (info_name (player_info s (owner_id sh)))
                                     (info_color ''#fff'' (player_info s (owner_id sh)))
                                     (info_name (player_info s pid))
                                     (info_color ''#888'' (player_info s pid)) now
                   in case map_of (tanks s) (owner_id sh) of
                        None \<Rightarrow>
                          ((put_tank pid victim s)\<lparr>pending_events := pending_events s @ [ev]\<rparr>, i)
                      | Some shooter \<Rightarrow>
                          (let shooter1 = shooter\<lparr>score := score shooter + 10,
                                                   kills := kills shooter + 1\<rparr>;
                               victim1 = victim\<lparr>deaths := deaths victim + 1\<rparr>;
                               fuel_ratio = uniform g i (2 / 10) (6 / 10);
                               ammo_ratio = uniform g (i + 1) (2 / 10) (6 / 10);
                               gear_ratio = uniform g (i + 2) (2 / 10) (6 / 10);
                               gear_lost = loot_lost (gears victim1) gear_ratio LOOT_GEAR_FLOOR;
                               victim2 = apply_loot fuel_ratio ammo_ratio gear_ratio victim1;
                               gear_gained = uniform g (i + 3) 5 (max 5 gear_lost);
                               shooter2 = shooter1\<lparr>gears := min 99 (gears shooter1 + gear_gained)\<rparr>;
                               s1 = put_tank (owner_id sh) shooter2 (put_tank pid victim2 s)
                           in (s1\<lparr>forts := release_forts pid victim2 (forts s1),
                                   pending_events := pending_events s1 @ [ev]\<rparr>, i + 4)))
                else (put_tank pid t1 s, i))
          else (s, i)))"

definition shell_impact :: "rng \<Rightarrow> real \<Rightarrow> shell \<Rightarrow> game_state \<times> nat \<Rightarrow> game_state \<times> nat" where
  "shell_impact g now sh si = fold (impact_tank g now sh) (map fst (tanks (fst si))) si"

subsection \<open>Shell movement\<close>

text \<open>
  The loop of \<^verbatim>\<open>_move_shells\<close>: the shells that stay in flight are returned moved, the
  others hit and are deleted after the loop. \<open>None\<close> is the \<^verbatim>\<open>ZeroDivisionError\<close> of
  \<^verbatim>\<open>dq/dist\<close>.
\<close>

fun move_shells_list ::
  "rng \<Rightarrow> real \<Rightarrow> real \<Rightarrow> (string \<times> shell) list \<Rightarrow> game_state \<times> nat \<Rightarrow>
   ((string \<times> shell) list \<times> game_state \<times> nat) option" where
  "move_shells_list g now dt [] si = Some ([], si)"
| "move_shells_list g now dt ((sid, sh) # rest) si =
     (let dq = of_int (shell_target_q sh) - shell_q sh;
          dr = of_int (shell_target_r sh) - shell_r sh;
          dist = sqrt (dq * dq + dr * dr);
          step = speed sh * dt
      in if dist \<le> step \<or> now - created sh > 3 then
           move_shells_list g now dt rest (shell_impact g now sh si)
         else if dist = 0 then None
         else
           (case move_shells_list g now dt rest si of
              None \<Rightarrow> None
            | Some (kept, si') \<Rightarrow>
                Some ((sid, sh\<lparr>shell_q := shell_q sh + (dq / dist) * step,
                                shell_r := shell_r sh + (dr / dist) * step\<rparr>) # kept, si')))"

definition move_shells :: "rng \<Rightarrow> real \<Rightarrow> real \<Rightarrow> game_state \<times> nat \<Rightarrow> (game_state \<times> nat) option" where
  "move_shells g now dt si =
     (case move_shells_list g now dt (shells (fst si)) si of
        None \<Rightarrow> None
      | Some (kept, s', i') \<Rightarrow> Some (s'\<lparr>shells := kept\<rparr>, i'))"

subsection \<open>Capture contest\<close>

definition RECAPTURE_MULTIPLIER :: real where "RECAPTURE_MULTIPLIER = 3 / 2"

definition effective_capture_time :: "fort \<Rightarrow> real" where
  "effective_capture_time f = CAPTURE_TIME * (if was_owned f then RECAPTURE_MULTIPLIER else 1)"

definition on_fort :: "fort \<Rightarrow> (string \<times> tank) list \<Rightarrow> string list" where
  "on_fort f ts =
     map fst (filter (\<lambda>(pid, t). alive t \<and> py_round (tank_q t) = fort_q f
                                   \<and> py_round (tank_r t) = fort_r f) ts)"

text \<open>
  The body of the loop of \<^verbatim>\<open>_update_captures\<close> for one fort. The capturer stands on
  the fort, so \<^verbatim>\<open>self.tanks[capturer]\<close> finds its tank; the \<open>None\<close> branch of that
  lookup is never taken.
\<close>

definition capture_step :: "real \<Rightarrow> real \<Rightarrow> fort \<Rightarrow> game_state \<Rightarrow> fort \<times> game_state" where
  "capture_step now dt f s =
     (case on_fort f (tanks s) of
        [] \<Rightarrow>
          if truthy (capturing_player f) \<and> capture_progress f > 0 then
            (let f1 = f\<lparr>capture_progress := max 0 (capture_progress f - dt * (1 / 2))\<rparr>
             in (if capture_progress f1 = 0 then f1\<lparr>capturing_player := None\<rparr> else f1, s))
          else (f, s)
      | [capturer] \<Rightarrow>
          if owner f = Some capturer then (f, s)
          else if capturing_player f = Some capturer then
            (let f1 = f\<lparr>capture_progress := capture_progress f + dt\<rparr>
             in if capture_progress f1 \<ge> effective_capture_time f then
                  (f1\<lparr>capture_progress := effective_capture_time f, owner := Some capturer,
                      was_owned := True, capturing_player := None\<rparr>,
                   (case map_of (tanks s) capturer of
                      None \<Rightarrow> s
                    | Some t \<Rightarrow>
                        (put_tank capturer
                           (t\<lparr>score := score t + 5, fort_captures := fort_captures t + 1\<rparr>) s)
                        \<lparr>pending_events := pending_events s @
                           [Capturefeed (info_name (player_info s capturer))
                              (info_color ''#fff'' (player_info s capturer)) (ftype f) now]\<rparr>))
                else (f1, s))
          else
            (f\<lparr>capturing_player := Some capturer,
               capture_progress := max 0 (capture_progress f - dt * (3 / 2))\<rparr>, s)
      | _ \<Rightarrow> (f\<lparr>capture_progress := max 0 (capture_progress f - dt * 2)\<rparr>, s))"

fun update_captures_list ::
  "real \<Rightarrow> real \<Rightarrow> (string \<times> fort) list \<Rightarrow> game_state \<Rightarrow> (string \<times> fort) list \<times> game_state" where
  "update_captures_list now dt [] s = ([], s)"
| "update_captures_list now dt ((fid, f) # rest) s =
     (let (f', s') = capture_step now dt f s;
          (rest', s'') = update_captures_list now dt rest s'
      in ((fid, f') # rest', s''))"

definition update_captures :: "real \<Rightarrow> real \<Rightarrow> game_state \<Rightarrow> game_state" where
  "update_captures now dt s =
     (let (fs, s') = update_captures_list now dt (forts s) s in s'\<lparr>forts := fs\<rparr>)"

subsection \<open>Resource generation\<close>

text \<open>
  \<^verbatim>\<open>owned_by\<close>: for each owner, in the order of first appearance, the types of its
  forts. \<^verbatim>\<open>if fort.owner:\<close> is the truth value of an optional string.
\<close>

fun owned_by :: "(string \<times> fort) list \<Rightarrow> (string \<times> string list) list \<Rightarrow> (string \<times> string list) list" where
  "owned_by [] acc = acc"
| "owned_by ((fid, f) # rest) acc =
     (case owner f of
        None \<Rightarrow> owned_by rest acc
      | Some p \<Rightarrow>
          if p = [] then owned_by rest acc
          else (case map_of acc p of
                  None \<Rightarrow> owned_by rest (acc @ [(p, [ftype f])])
                | Some l \<Rightarrow> owned_by rest (AList.update p (l @ [ftype f]) acc)))"

definition credit :: "real \<Rightarrow> string \<Rightarrow> tank \<Rightarrow> tank" where
  "credit dt ft t =
     (let t1 = (if ft = ''fuel'' \<or> ft = ''mixed''
                then t\<lparr>fuel := min 120 (fuel t + FORT_FUEL_GEN * dt)\<rparr> else t);
          t2 = (if ft = ''ammo'' \<or> ft = ''mixed''
                then t1\<lparr>ammo := min 100 (ammo t1 + FORT_AMMO_GEN * dt)\<rparr> else t1)
      in if ft = ''gear'' \<or> ft = ''mixed''
         then t2\<lparr>gears := min 99 (gears t2 + FORT_GEAR_GEN * dt)\<rparr> else t2)"

definition credit_owner :: "real \<Rightarrow> string \<times> string list \<Rightarrow> game_state \<Rightarrow> game_state" where
  "credit_owner dt = (\<lambda>(pid, ftypes) s.
     (case map_of (tanks s) pid of
        None \<Rightarrow> s
      | Some t \<Rightarrow> if \<not> alive t then s else put_tank pid (fold (credit dt) ftypes t) s))"

definition generate_resources :: "real \<Rightarrow> game_state \<Rightarrow> game_state" where
  "generate_resources dt s = fold (credit_owner dt) (owned_by (forts s) []) s"

subsection \<open>Respawn\<close>

definition starts :: "cell list" where
  "starts = [(0, 4), (-4, 0), (0, -4), (4, -4), (4, 0), (-4, 4)]"

text \<open>\<^verbatim>\<open>random.choice(starts)\<close>: the slot picked by one sample of the generator.\<close>

definition choice_start :: "rng \<Rightarrow> nat \<Rightarrow> cell" where
  "choice_start g i = starts ! min 5 (nat \<lfloor>g i * 6\<rfloor>)"

definition respawn_tank :: "rng \<Rightarrow> real \<Rightarrow> tank \<Rightarrow> nat \<Rightarrow> tank \<times> nat" where
  "respawn_tank g dt t i =
     (if \<not> alive t then
        (let t1 = t\<lparr>respawn_timer := respawn_timer t - dt\<rparr>
         in if respawn_timer t1 \<le> 0 then
              (t1\<lparr>alive := True, hp := max_hp t1, respawn_timer := 0,
                  tank_q := of_int (fst (choice_start g i)),
                  tank_r := of_int (snd (choice_start g i)), path := []\<rparr>, i + 1)
            else (t1, i))
      else (t, i))"

fun check_respawns_list :: "rng \<Rightarrow> real \<Rightarrow> (string \<times> tank) list \<Rightarrow> nat \<Rightarrow> (string \<times> tank) list \<times> nat" where
  "check_respawns_list g dt [] i = ([], i)"
| "check_respawns_list g dt ((pid, t) # rest) i =
     (let (t', i') = respawn_tank g dt t i;
          (rest', i'') = check_respawns_list g dt rest i'
      in ((pid, t') # rest', i''))"

definition check_respawns :: "rng \<Rightarrow> real \<Rightarrow> game_state \<times> nat \<Rightarrow> game_state \<times> nat" where
  "check_respawns g dt = (\<lambda>(s, i).
     (let (ts, i') = check_respawns_list g dt (tanks s) i in (s\<lparr>tanks := ts\<rparr>, i')))"

subsection \<open>The tick\<close>

text \<open>
  \<^verbatim>\<open>GameState.tick_update(dt)\<close>, with the clock value \<open>now\<close> of the tick, the random
  generator and its running index. \<open>None\<close> is an exception leaving the tick. The first
  \<^verbatim>\<open>if\<close> of the method, the countdown of the match timer, is \<open>match_countdown\<close>.
\<close>

definition match_countdown :: "real \<Rightarrow> game_state \<Rightarrow> game_state" where
  "match_countdown dt s =
     (if \<not> match_over s then
        (let s' = s\<lparr>match_timer := match_timer s - dt\<rparr>
         in if match_timer s' \<le> 0 then end_match (s'\<lparr>match_timer := 0\<rparr>) else s')
      else s)"

definition tick_update :: "rng \<Rightarrow> real \<Rightarrow> real \<Rightarrow> game_state \<times> nat \<Rightarrow> (game_state \<times> nat) option" where
  "tick_update g now dt = (\<lambda>(s, i).
     (let s1 = match_countdown dt s
      in if match_over s1 then
           (let s2 = s1\<lparr>post_match_timer := post_match_timer s1 - dt\<rparr>
            in Some (if post_match_timer s2 \<le> 0 then reset_match s2 else s2, i))
         else
           (case move_tanks dt s1 of
              None \<Rightarrow> None
            | Some s2 \<Rightarrow>
                (case move_shells g now dt (s2, i) of
                   None \<Rightarrow> None
                 | Some (s3, i3) \<Rightarrow>
                     (let s4 = update_captures now dt s3;
                          s5 = generate_resources dt s4;
                          (s6, i6) = check_respawns g dt (s5, i3)
                      in Some (s6\<lparr>tick_counter := tick_counter s6 + 1\<rparr>, i6))))))"

subsection \<open>Construction\<close>

text \<open>
  The \<^verbatim>\<open>Tank\<close> that \<^verbatim>\<open>add_player\<close> builds (the dataclass defaults), a fresh \<^verbatim>\<open>Fort\<close>
  as \<^verbatim>\<open>_generate_forts\<close> builds it, and the state of \<^verbatim>\<open>GameState.__init__\<close> for a
  given fort layout (the layout itself is shuffled at random).
\<close>

definition new_tank :: "string \<Rightarrow> real \<Rightarrow> real \<Rightarrow> string \<Rightarrow> tank" where
  "new_tank pid sq sr col =
     \<lparr>tank_id = ''tank_'' @ pid, player_id = pid, tank_q = sq, tank_r = sr,
      target_q = None, target_r = None, path = [], hp = TANK_MAX_HP, max_hp = TANK_MAX_HP,
      fuel = 80, ammo = 50, gears = 0, move_speed = MOVE_SPEED_BASE, vision = FOG_RANGE,
      shell_damage = SHELL_DAMAGE, ammo_cost = AMMO_SHOOT, alive = True, respawn_timer = 0,
      color = col, facing = 0, upgrades = [], last_shot = 0, score = 0, kills = 0,
      deaths = 0, fort_captures = 0\<rparr>"

definition new_fort :: "string \<Rightarrow> int \<Rightarrow> int \<Rightarrow> string \<Rightarrow> fort" where
  "new_fort fid fq fr ft =
     \<lparr>fort_id = fid, fort_q = fq, fort_r = fr, ftype = ft, owner = None,
      capture_progress = 0, capturing_player = None, was_owned = False\<rparr>"

definition new_game :: "(string \<times> fort) list \<Rightarrow> game_state" where
  "new_game fs =
     \<lparr>players = [], tanks = [], forts = fs, shells = [], tick_counter = 0,
      match_timer = MATCH_TIME, match_over = False, post_match_timer = 0,
      pending_events = [], rematch_votes = {}\<rparr>"

text \<open>A match with the single player \<open>p1\<close>, used to run the commands on concrete inputs.\<close>

definition one_tank_game :: "tank \<Rightarrow> game_state" where
  "one_tank_game t = (new_game [])\<lparr>tanks := [(''p1'', t)]\<rparr>"

subsection \<open>Vocabulary for the statements about \<^verbatim>\<open>shoot\<close>\<close>

text \<open>The range test of \<^verbatim>\<open>shoot\<close>, negated: \<^verbatim>\<open>dist <= max_range\<close>.\<close>

definition in_range :: "tank \<Rightarrow> cell \<Rightarrow> bool" where
  "in_range t c \<longleftrightarrow>
     hex_distance (py_round (tank_q t), py_round (tank_r t)) c
       \<le> 5 + int (upgrade_level t ''cannon'')"

text \<open>The shell a successful shot of tank \<open>t\<close> creates.\<close>

definition new_shell :: "real \<Rightarrow> string \<Rightarrow> string \<Rightarrow> int \<Rightarrow> int \<Rightarrow> tank \<Rightarrow> shell" where
  "new_shell now sid pid tq tr t =
     \<lparr>shell_id = sid, owner_id = pid, shell_q = tank_q t, shell_r = tank_r t,
      shell_target_q = tq, shell_target_r = tr, speed = SHELL_SPEED,
      damage = shell_damage t + int (upgrade_level t ''cannon'') * 5, created = now\<rparr>"





subsection \<open>Vocabulary for the statement about \<^verbatim>\<open>upgrade\<close>\<close>

text \<open>The tank after a successful upgrade of category \<open>cat\<close>: the writes of \<^verbatim>\<open>upgrade\<close>.\<close>

definition upgraded :: "string \<Rightarrow> tank \<Rightarrow> tank" where
  "upgraded cat t =
     apply_effect cat
       (t\<lparr>gears := gears t - lvl_costs ! upgrade_level t cat,
          upgrades := AList.update cat (upgrade_level t cat + 1) (upgrades t)\<rparr>)"

subsection \<open>Vocabulary for the statement about movement\<close>

text \<open>The distance \<^verbatim>\<open>dist\<close> that \<^verbatim>\<open>_move_tanks\<close> computes from a tank to a waypoint.\<close>

definition waypoint_distance :: "tank \<Rightarrow> cell \<Rightarrow> real" where
  "waypoint_distance t c =
     sqrt ((of_int (fst c) - tank_q t) * (of_int (fst c) - tank_q t)
         + (of_int (snd c) - tank_r t) * (of_int (snd c) - tank_r t))"

subsection \<open>Disconnect\<close>

text \<open>
  \<^verbatim>\<open>GameState.remove_player\<close>: the player and its tank are deleted and its forts
  released; the shells it has in flight stay.
\<close>

definition remove_player :: "string \<Rightarrow> game_state \<Rightarrow> game_state" where
  "remove_player ws_id s =
     (case map_of (players s) ws_id of
        None \<Rightarrow> s
      | Some p \<Rightarrow>
          s\<lparr>players := AList.delete ws_id (players s),
            tanks := AList.delete (pl_id p) (tanks s),
            forts := map (\<lambda>(fid, f).
                       (fid, let f1 = (if owner f = Some (pl_id p)
                                       then f\<lparr>owner := None, capture_progress := 0\<rparr> else f)
                             in if capturing_player f1 = Some (pl_id p)
                                then f1\<lparr>capturing_player := None, capture_progress := 0\<rparr>
                                else f1)) (forts s)\<rparr>)"

subsection \<open>Vocabulary and inputs for the statements about shell impact\<close>

text \<open>The two tests of \<^verbatim>\<open>_shell_impact\<close> on a tank: within one hex of the target, and killed.\<close>

definition hit :: "shell \<Rightarrow> tank \<Rightarrow> bool" where
  "hit sh t \<longleftrightarrow>
     hex_distance (py_round (tank_q t), py_round (tank_r t))
       (shell_target_q sh, shell_target_r sh) \<le> 1"

definition lethal :: "shell \<Rightarrow> tank \<Rightarrow> bool" where
  "lethal sh t \<longleftrightarrow> hp t - damage sh \<le> 0"

text \<open>
  A match of two players \<open>p1\<close> and \<open>p2\<close>; a tank low on health, fuel and ammo; a tank
  close to the gear cap; and the state after \<open>p2\<close> has fired at \<open>p1\<close> from the next cell
  and then disconnected.
\<close>

definition two_tank_game :: "tank \<Rightarrow> tank \<Rightarrow> game_state" where
  "two_tank_game t1 t2 =
     (new_game [])
       \<lparr>players := [(''w1'', \<lparr>pl_id = ''p1'', pl_name = ''ann'', pl_color = ''#e74c3c'', pl_ws_id = ''w1''\<rparr>),
                    (''w2'', \<lparr>pl_id = ''p2'', pl_name = ''bob'', pl_color = ''#3498db'', pl_ws_id = ''w2''\<rparr>)],
        tanks := [(''p1'', t1), (''p2'', t2)]\<rparr>"

definition weak_tank :: tank where
  "weak_tank = (new_tank ''p1'' 0 4 ''#e74c3c'')\<lparr>hp := 30, fuel := 3, ammo := 2, gears := 40\<rparr>"

definition rich_tank :: tank where
  "rich_tank = (new_tank ''p2'' 1 4 ''#3498db'')\<lparr>gears := 97\<rparr>"

definition orphan_shell_game :: game_state where
  "orphan_shell_game =
     remove_player ''w2''
       (snd (shoot 1 ''s1'' ''p2'' 0 4 (two_tank_game weak_tank (new_tank ''p2'' 1 4 ''#3498db''))))"

text \<open>
  A fort that \<open>pid\<close> has captured (the capture leaves the progress at the capture
  time), and the two-player match with \<open>p1\<close> at \<open>(0, 4)\<close> owning three forts at
  coordinate-offset distances 1, 2 and 3.
\<close>

definition owned_fort :: "string \<Rightarrow> int \<Rightarrow> int \<Rightarrow> string \<Rightarrow> fort" where
  "owned_fort fid fq fr pid =
     (new_fort fid fq fr ''fuel'')\<lparr>owner := Some pid, capture_progress := 5, was_owned := True\<rparr>"

definition three_fort_game :: game_state where
  "three_fort_game =
     (two_tank_game weak_tank (new_tank ''p2'' 0 3 ''#3498db''))
       \<lparr>forts := [(''fort_0'', owned_fort ''fort_0'' 1 4 ''p1''),
                  (''fort_1'', owned_fort ''fort_1'' 2 4 ''p1''),
                  (''fort_2'', owned_fort ''fort_2'' 3 4 ''p1'')]\<rparr>"

subsection \<open>Vocabulary and inputs for the statements about capture\<close>

text \<open>The progress of a fort lies between 0 and its effective capture time.\<close>

definition progress_ok :: "fort \<Rightarrow> bool" where
  "progress_ok f \<longleftrightarrow> 0 \<le> capture_progress f \<and> capture_progress f \<le> effective_capture_time f"

text \<open>
  A two-player match with one fort, and a view of a state: owner, progress, ever-owned
  flag and contester of each fort, and score and capture count of each tank.
\<close>

definition capture_game :: "tank \<Rightarrow> tank \<Rightarrow> fort \<Rightarrow> game_state" where
  "capture_game t1 t2 f = (two_tank_game t1 t2)\<lparr>forts := [(''fort_0'', f)]\<rparr>"

definition summary :: "game_state \<Rightarrow> (string option \<times> real \<times> bool \<times> string option) list \<times> (int \<times> int) list" where
  "summary s =
     (map (\<lambda>(fid, f). (owner f, capture_progress f, was_owned f, capturing_player f)) (forts s),
      map (\<lambda>(pid, t). (score t, fort_captures t)) (tanks s))"

subsection \<open>Vocabulary for the statement about the bounds of a tank\<close>

text \<open>
  Health between 0 and the maximum, and fuel, ammo and gears between 0 and their caps
  120, 100 and 99.
\<close>

definition tank_ok :: "tank \<Rightarrow> bool" where
  "tank_ok t \<longleftrightarrow>
     0 \<le> hp t \<and> hp t \<le> max_hp t \<and> 0 \<le> fuel t \<and> fuel t \<le> 120
     \<and> 0 \<le> ammo t \<and> ammo t \<le> 100 \<and> 0 \<le> gears t \<and> gears t \<le> 99"

text \<open>
  Two tank dictionaries with the same keys in the same order, where each tank that was
  within the bounds in the first is within the bounds in the second.
\<close>

definition keeps_ok :: "(string \<times> tank) list \<Rightarrow> (string \<times> tank) list \<Rightarrow> bool" where
  "keeps_ok ts ts' \<longleftrightarrow>
     list_all2 (\<lambda>x y. fst x = fst y \<and> (tank_ok (snd x) \<longrightarrow> tank_ok (snd y))) ts ts'"

section \<open>Properties of the hex math\<close>

lemma hex_sum_even: "even (\<bar>x\<bar> + \<bar>x + y\<bar> + \<bar>y::int\<bar>)"
  by presburger

lemma hex_distance_twice:
  "2 * hex_distance a b =
     \<bar>fst a - fst b\<bar> + \<bar>fst a + snd a - fst b - snd b\<bar> + \<bar>snd a - snd b\<bar>"
proof -
  have "even (\<bar>fst a - fst b\<bar> + \<bar>(fst a - fst b) + (snd a - snd b)\<bar> + \<bar>snd a - snd b\<bar>)"
    by (rule hex_sum_even)
  then show ?thesis
    unfolding hex_distance_def by (simp add: algebra_simps)
qed

lemma hex_distance_nonneg: "0 \<le> hex_distance a b"
  using hex_distance_twice [of a b] by linarith

lemma hex_distance_sym: "hex_distance a b = hex_distance b a"
  using hex_distance_twice [of a b] hex_distance_twice [of b a] by linarith

lemma hex_distance_zero_iff: "hex_distance a b = 0 \<longleftrightarrow> a = b"
proof
  assume "hex_distance a b = 0"
  with hex_distance_twice [of a b] have "fst a = fst b \<and> snd a = snd b" by linarith
  then show "a = b" by (simp add: prod_eq_iff)
next
  assume "a = b"
  then show "hex_distance a b = 0" by (simp add: hex_distance_def)
qed

lemma hex_distance_triangle: "hex_distance a c \<le> hex_distance a b + hex_distance b c"
  using hex_distance_twice [of a b] hex_distance_twice [of b c] hex_distance_twice [of a c]
  by linarith

lemma sum_abs_sym: "(\<Sum>d\<in>{- int k .. int k}. \<bar>d\<bar>) = int k * (int k + 1)"
proof (induction k)
  case 0
  show ?case by simp
next
  case (Suc k)
  have "{- int (Suc k) .. int (Suc k)} =
        insert (- int (Suc k)) (insert (int (Suc k)) {- int k .. int k})"
    by auto
  then show ?case using Suc by (simp add: algebra_simps)
qed

lemma hex_range_length: "length (hex_range c (int k)) = 1 + 3 * k * (k + 1)"
proof -
  let ?K = "int k"
  let ?row = "\<lambda>dq. [max (- ?K) (- dq - ?K) .. min ?K (- dq + ?K)]"
  have "length (hex_range c ?K) = (\<Sum>dq\<leftarrow>[- ?K .. ?K]. length (?row dq))"
    by (simp add: hex_range_def length_concat comp_def del: length_upto)
  also have "\<dots> = (\<Sum>dq\<in>{- ?K .. ?K}. length (?row dq))"
    by (simp add: sum_list_distinct_conv_sum_set del: length_upto)
  finally have "int (length (hex_range c ?K)) = (\<Sum>dq\<in>{- ?K .. ?K}. int (length (?row dq)))"
    by (simp del: length_upto)
  also have "\<dots> = (\<Sum>dq\<in>{- ?K .. ?K}. 2 * ?K + 1 - \<bar>dq\<bar>)"
    by (rule sum.cong) (auto simp: max_def min_def)
  also have "\<dots> = (2 * ?K + 1) * (2 * ?K + 1) - ?K * (?K + 1)"
    by (simp add: sum_subtractf sum_abs_sym)
  also have "\<dots> = int (1 + 3 * k * (k + 1))"
    by (simp add: algebra_simps)
  finally show ?thesis by linarith
qed

lemma distinct_concat_pairs:
  "distinct xs \<Longrightarrow> (\<And>x. distinct (h x)) \<Longrightarrow>
   distinct (concat (map (\<lambda>x. map (Pair x) (h x)) xs))"
  by (induction xs) (auto simp: distinct_map inj_on_def)

lemma hex_range_as_pairs:
  "hex_range c k =
     map (\<lambda>(dq, dr). (fst c + dq, snd c + dr))
       (concat (map (\<lambda>dq. map (Pair dq) [max (- k) (- dq - k) .. min k (- dq + k)]) [- k .. k]))"
  by (simp add: hex_range_def map_concat comp_def)

lemma hex_range_distinct: "distinct (hex_range c k)"
  unfolding hex_range_as_pairs
  by (simp add: distinct_map distinct_concat_pairs inj_on_def)

text \<open>
  C9. For all cells \<open>a\<close>, \<open>b\<close>, \<open>c\<close> the hex distance is a non-negative integer, symmetric,
  zero exactly for equal cells, and satisfies the triangle inequality; and for every
  centre and every radius \<open>k \<ge> 0\<close> (a natural number here) \<^verbatim>\<open>hex_range\<close> lists exactly
  \<open>1 + 3k(k+1)\<close> cells, no cell twice.
\<close>

theorem C9_distance_metric_and_range_count:
  "0 \<le> hex_distance a b
   \<and> hex_distance a b = hex_distance b a
   \<and> (hex_distance a b = 0 \<longleftrightarrow> a = b)
   \<and> hex_distance a c \<le> hex_distance a b + hex_distance b c
   \<and> length (hex_range ctr (int k)) = 1 + 3 * k * (k + 1)
   \<and> distinct (hex_range ctr (int k))"
  using hex_distance_nonneg [of a b] hex_distance_sym [of a b]
    hex_distance_zero_iff [of a b] hex_distance_triangle [of a c b]
    hex_range_length [of ctr k] hex_range_distinct [of ctr "int k"]
  by blast

theorem C9_witness:
  "hex_distance (0, 0) (2, -1) = 2 \<and> hex_distance (2, -1) (0, 0) = 2
   \<and> length (hex_range (3, 4) (int 2)) = 19 \<and> distinct (hex_range (3, 4) (int 2))"
  using C9_distance_metric_and_range_count [of "(0, 0)" "(2, -1)" "(0, 0)" "(3, 4)" 2]
  by (simp add: hex_distance_def)

section \<open>The commands\<close>

lemma py_round_of_int [simp]: "py_round (of_int n) = n"
  by (simp add: py_round_def)

lemma py_round_numeral [simp]:
  "py_round (numeral n) = numeral n" "py_round 0 = 0" "py_round 1 = 1"
  using py_round_of_int [of "numeral n"] py_round_of_int [of 0] py_round_of_int [of 1]
  by simp_all

lemma shoot_unavailable:
  "map_of (tanks s) pid = None \<or> (\<exists>t. map_of (tanks s) pid = Some t \<and> \<not> alive t) \<Longrightarrow>
   shoot now sid pid tq tr s = (Error ''tank not available'', s)"
  by (auto simp: shoot_def)

lemma shoot_cooldown:
  "map_of (tanks s) pid = Some t \<Longrightarrow> alive t \<Longrightarrow> now - last_shot t < FIRE_COOLDOWN \<Longrightarrow>
   shoot now sid pid tq tr s = (Error ''cooldown'', s)"
  by (simp add: shoot_def)


lemma shoot_out_of_range:
  "map_of (tanks s) pid = Some t \<Longrightarrow> alive t \<Longrightarrow> \<not> now - last_shot t < FIRE_COOLDOWN \<Longrightarrow>
   \<not> ammo t < ammo_cost t \<Longrightarrow> \<not> in_range t (tq, tr) \<Longrightarrow>
   shoot now sid pid tq tr s = (Error ''out of range'', put_tank pid (t\<lparr>last_shot := now\<rparr>) s)"
  by (simp add: shoot_def Let_def in_range_def upgrade_level_def)










text \<open>
  The validation failures that leave the state as it was: every failure of
  \<^verbatim>\<open>set_tank_path\<close>, \<^verbatim>\<open>upgrade\<close> and \<^verbatim>\<open>cast_vote\<close>, and the first two of \<^verbatim>\<open>shoot\<close>.
\<close>

lemma validation_failures_keep_state:
  "fst (set_tank_path pid p s) = Error e \<Longrightarrow> snd (set_tank_path pid p s) = s"
  "fst (upgrade pid u s) = Error e \<Longrightarrow> snd (upgrade pid u s) = s"
  "fst (cast_vote pid s) = Error e \<Longrightarrow> snd (cast_vote pid s) = s"
  "fst (shoot now sid pid tq tr s) = Error ''tank not available'' \<Longrightarrow>
   snd (shoot now sid pid tq tr s) = s"
  "fst (shoot now sid pid tq tr s) = Error ''cooldown'' \<Longrightarrow> snd (shoot now sid pid tq tr s) = s"
  by (auto simp: set_tank_path_def upgrade_def cast_vote_def shoot_def Let_def
      split: option.splits if_splits)

text \<open>
  C1. Every command that fails validation returns an error and leaves the whole state,
  the shooter's last-shot time included, as it was. The code at a concrete input: player
  \<open>p1\<close> at cell \<open>(0, 4)\<close>, last shot at time 0, fires at time 10 at the cell \<open>(0, 20)\<close>,
  which is out of range. The reply is the error, and the tank's \<^verbatim>\<open>last_shot\<close> is 10
  afterwards, so the state differs; the same happens with too little ammo. A shot half a
  second later, in range, is then rejected for cooldown, while it succeeds from the
  original state.
\<close>

theorem C1_failed_shot_restarts_cooldown:
  "fst (shoot 10 ''s1'' ''p1'' 0 20 (one_tank_game (new_tank ''p1'' 0 4 ''#e74c3c'')))
     = Error ''out of range''
   \<and> map (last_shot \<circ> snd) (tanks (one_tank_game (new_tank ''p1'' 0 4 ''#e74c3c''))) = [0]
   \<and> map (last_shot \<circ> snd)
        (tanks (snd (shoot 10 ''s1'' ''p1'' 0 20 (one_tank_game (new_tank ''p1'' 0 4 ''#e74c3c'')))))
     = [10]
   \<and> snd (shoot 10 ''s1'' ''p1'' 0 20 (one_tank_game (new_tank ''p1'' 0 4 ''#e74c3c'')))
     \<noteq> one_tank_game (new_tank ''p1'' 0 4 ''#e74c3c'')
   \<and> fst (shoot 10 ''s1'' ''p1'' 0 4 (one_tank_game ((new_tank ''p1'' 0 4 ''#e74c3c'')\<lparr>ammo := 5\<rparr>)))
     = Error ''not enough ammo''
   \<and> map (last_shot \<circ> snd)
        (tanks (snd (shoot 10 ''s1'' ''p1'' 0 4
           (one_tank_game ((new_tank ''p1'' 0 4 ''#e74c3c'')\<lparr>ammo := 5\<rparr>)))))
     = [10]
   \<and> fst (shoot (10 + 1 / 2) ''s2'' ''p1'' 0 4
        (snd (shoot 10 ''s1'' ''p1'' 0 20 (one_tank_game (new_tank ''p1'' 0 4 ''#e74c3c'')))))
     = Error ''cooldown''
   \<and> fst (shoot (10 + 1 / 2) ''s2'' ''p1'' 0 4 (one_tank_game (new_tank ''p1'' 0 4 ''#e74c3c'')))
     = ShootOk ''s2''"
  by (simp add: shoot_def one_tank_game_def new_game_def new_tank_def put_tank_def Let_def
      hex_distance_def upgrade_level_def constants)

lemma put_tank_twice [simp]: "put_tank pid t (put_tank pid t' s) = put_tank pid t s"
  by (simp add: put_tank_def)

lemma tanks_put_tank: "map_of (tanks (put_tank pid t s)) = (map_of (tanks s))(pid \<mapsto> t)"
  by (simp add: put_tank_def update_conv')

lemma apply_effect_fields:
  "gears (apply_effect cat t) = gears t" "upgrades (apply_effect cat t) = upgrades t"
  "alive (apply_effect cat t) = alive t"
  by (simp_all add: apply_effect_def)

lemma apply_effect_alive: "apply_effect cat (t\<lparr>alive := b\<rparr>) = (apply_effect cat t)\<lparr>alive := b\<rparr>"
  by (simp add: apply_effect_def)

lemma upgrade_level_alive: "upgrade_level (t\<lparr>alive := b\<rparr>) cat = upgrade_level t cat"
  by (simp add: upgrade_level_def)

lemma upgraded_alive: "upgraded cat (t\<lparr>alive := b\<rparr>) = (upgraded cat t)\<lparr>alive := b\<rparr>"
  by (simp add: upgraded_def upgrade_level_alive apply_effect_def)

lemma upgraded_fields:
  "gears (upgraded cat t) = gears t - lvl_costs ! upgrade_level t cat"
  "upgrade_level (upgraded cat t) cat = upgrade_level t cat + 1"
  "alive (upgraded cat t) = alive t"
  by (simp_all add: upgraded_def apply_effect_fields upgrade_level_def update_conv')

lemma upgrade_success:
  assumes "map_of (tanks s) pid = Some t" and "map_of UPGRADE_COSTS cat \<noteq> None"
    and "upgrade_level t cat < 3" and "lvl_costs ! upgrade_level t cat \<le> gears t"
  shows "upgrade pid cat s =
      (UpgradeOk cat (upgrade_level t cat + 1) 3, put_tank pid (upgraded cat t) s)"
proof -
  from assms(2) obtain c where c: "map_of UPGRADE_COSTS cat = Some c" by blast
  show ?thesis
    using assms(1,3,4) by (simp add: upgrade_def c Let_def upgraded_def constants)
qed

text \<open>
  C10. \<^verbatim>\<open>upgrade\<close> does not require the tank to be alive: for a dead tank, a known
  category, a level below 3 and gears covering the price of the next level, the upgrade
  succeeds, debits the price (5, 10, 18), raises the level by one and applies the stat
  change of the category, and the result is the one the same tank would get alive, up
  to the alive flag.
\<close>

theorem C10_upgrade_ignores_alive:
  assumes "map_of (tanks s) pid = Some t" and "\<not> alive t"
    and "cat \<in> {''engine'', ''armor'', ''cannon'', ''sensor'', ''loader''}"
    and "upgrade_level t cat < 3"
    and "lvl_costs ! upgrade_level t cat \<le> gears t"
  shows "upgrade pid cat s = (UpgradeOk cat (upgrade_level t cat + 1) 3, put_tank pid (upgraded cat t) s)
       \<and> gears (upgraded cat t) = gears t - [5, 10, 18] ! upgrade_level t cat
       \<and> upgrade_level (upgraded cat t) cat = upgrade_level t cat + 1
       \<and> \<not> alive (upgraded cat t)
       \<and> (cat = ''engine'' \<longrightarrow> move_speed (upgraded cat t) = move_speed t + 4 / 10)
       \<and> (cat = ''armor'' \<longrightarrow> max_hp (upgraded cat t) = max_hp t + 20
              \<and> hp (upgraded cat t) = min (hp t + 20) (max_hp t + 20))
       \<and> (cat = ''cannon'' \<longrightarrow> shell_damage (upgraded cat t) = shell_damage t + 10)
       \<and> (cat = ''sensor'' \<longrightarrow> vision (upgraded cat t) = vision t + 1)
       \<and> (cat = ''loader'' \<longrightarrow> ammo_cost (upgraded cat t) = max 2 (ammo_cost t - 2))
       \<and> upgrade pid cat (put_tank pid (t\<lparr>alive := True\<rparr>) s)
           = (UpgradeOk cat (upgrade_level t cat + 1) 3,
              put_tank pid ((upgraded cat t)\<lparr>alive := True\<rparr>) s)"
proof -
  have known: "map_of UPGRADE_COSTS cat \<noteq> None"
    using assms(3) by (auto simp: UPGRADE_COSTS_def)
  have dead: "upgrade pid cat s =
      (UpgradeOk cat (upgrade_level t cat + 1) 3, put_tank pid (upgraded cat t) s)"
    using upgrade_success [OF assms(1) known assms(4,5)] .
  have "map_of (tanks (put_tank pid (t\<lparr>alive := True\<rparr>) s)) pid = Some (t\<lparr>alive := True\<rparr>)"
    by (simp add: tanks_put_tank)
  from upgrade_success [OF this known] assms(4,5)
  have live: "upgrade pid cat (put_tank pid (t\<lparr>alive := True\<rparr>) s)
           = (UpgradeOk cat (upgrade_level t cat + 1) 3,
              put_tank pid ((upgraded cat t)\<lparr>alive := True\<rparr>) s)"
    by (simp add: upgrade_level_alive upgraded_alive)
  have fields: "gears (upgraded cat t) = gears t - [5, 10, 18] ! upgrade_level t cat"
    "upgrade_level (upgraded cat t) cat = upgrade_level t cat + 1"
    "\<not> alive (upgraded cat t)"
    using assms(2) by (simp_all add: upgraded_fields lvl_costs_def)
  have effects: "cat = ''engine'' \<longrightarrow> move_speed (upgraded cat t) = move_speed t + 4 / 10"
    "cat = ''armor'' \<longrightarrow> max_hp (upgraded cat t) = max_hp t + 20
              \<and> hp (upgraded cat t) = min (hp t + 20) (max_hp t + 20)"
    "cat = ''cannon'' \<longrightarrow> shell_damage (upgraded cat t) = shell_damage t + 10"
    "cat = ''sensor'' \<longrightarrow> vision (upgraded cat t) = vision t + 1"
    "cat = ''loader'' \<longrightarrow> ammo_cost (upgraded cat t) = max 2 (ammo_cost t - 2)"
    by (simp_all add: upgraded_def apply_effect_def)
  from dead live fields effects show ?thesis by blast
qed

theorem C10_witness:
  "upgrade ''p1'' ''armor''
     (one_tank_game ((new_tank ''p1'' 0 4 ''#e74c3c'')\<lparr>alive := False, hp := 0, gears := 7\<rparr>))
   = (UpgradeOk ''armor'' 1 3,
      one_tank_game ((new_tank ''p1'' 0 4 ''#e74c3c'')
        \<lparr>alive := False, hp := 20, gears := 2, max_hp := 120, upgrades := [(''armor'', 1)]\<rparr>))"
proof -
  let ?t = "(new_tank ''p1'' 0 4 ''#e74c3c'')\<lparr>alive := False, hp := 0, gears := 7\<rparr>"
  let ?s = "one_tank_game ?t"
  have h1: "map_of (tanks ?s) ''p1'' = Some ?t" by (simp add: one_tank_game_def new_game_def)
  have h2: "\<not> alive ?t" by simp
  have h3: "''armor'' \<in> {''engine'', ''armor'', ''cannon'', ''sensor'', ''loader''}" by simp
  have h4: "upgrade_level ?t ''armor'' < 3" by (simp add: upgrade_level_def new_tank_def)
  have h5: "lvl_costs ! upgrade_level ?t ''armor'' \<le> gears ?t"
    by (simp add: upgrade_level_def new_tank_def lvl_costs_def)
  from C10_upgrade_ignores_alive [OF h1 h2 h3 h4 h5]
  have "upgrade ''p1'' ''armor'' ?s = (UpgradeOk ''armor'' (upgrade_level ?t ''armor'' + 1) 3,
          put_tank ''p1'' (upgraded ''armor'' ?t) ?s)"
    by blast
  then show ?thesis
    by (simp add: upgraded_def apply_effect_def upgrade_level_def new_tank_def lvl_costs_def
        put_tank_def one_tank_game_def new_game_def constants)
qed

section \<open>Movement\<close>

lemma move_tanks_list_lookup:
  "move_tanks_list dt ts = Some ts' \<Longrightarrow>
   map_of ts' pid = (case map_of ts pid of None \<Rightarrow> None | Some t \<Rightarrow> move_tank dt t)"
proof (induction ts arbitrary: ts')
  case Nil
  then show ?case by simp
next
  case (Cons x ts)
  obtain p t where x: "x = (p, t)" by (cases x)
  from Cons.prems x obtain t' rest' where
    t': "move_tank dt t = Some t'" and rest: "move_tanks_list dt ts = Some rest'"
    and ts': "ts' = (p, t') # rest'"
    by (auto split: option.splits)
  show ?case using Cons.IH [OF rest] by (simp add: x ts' t')
qed

lemma move_tank_arrive:
  assumes "alive t" "path t = (nq, nr) # rest"
    "waypoint_distance t (nq, nr) \<le> move_speed t * dt" "\<not> fuel t < FUEL_PER_HEX"
  shows "move_tank dt t =
     Some (if rest = [] then
             t\<lparr>fuel := fuel t - FUEL_PER_HEX, tank_q := of_int nq, tank_r := of_int nr,
               path := [], target_q := None, target_r := None\<rparr>
           else t\<lparr>fuel := fuel t - FUEL_PER_HEX, tank_q := of_int nq, tank_r := of_int nr,
                  path := rest\<rparr>)"
  using assms by (simp add: move_tank_def waypoint_distance_def Let_def)

lemma move_tank_no_fuel:
  assumes "alive t" "path t = (nq, nr) # rest"
    "waypoint_distance t (nq, nr) \<le> move_speed t * dt" "fuel t < FUEL_PER_HEX"
  shows "move_tank dt t = Some (t\<lparr>path := [], target_q := None, target_r := None\<rparr>)"
  using assms by (simp add: move_tank_def waypoint_distance_def Let_def)

lemma move_tank_interpolate:
  assumes "alive t" "path t = (nq, nr) # rest"
    "\<not> waypoint_distance t (nq, nr) \<le> move_speed t * dt" "0 \<le> move_speed t * dt"
  shows "move_tank dt t =
     Some (t\<lparr>facing := atan2 (of_int nr - tank_r t) (of_int nq - tank_q t),
             tank_q := tank_q t + ((of_int nq - tank_q t) / waypoint_distance t (nq, nr))
                                   * (move_speed t * dt),
             tank_r := tank_r t + ((of_int nr - tank_r t) / waypoint_distance t (nq, nr))
                                   * (move_speed t * dt)\<rparr>)"
proof -
  have "waypoint_distance t (nq, nr) \<noteq> 0" using assms(3,4) by linarith
  then show ?thesis
    using assms(1,2,3) by (simp add: move_tank_def waypoint_distance_def Let_def)
qed

text \<open>
  C5. For a living tank with a non-empty path, one movement tick with a non-negative
  step \<^verbatim>\<open>speed*dt\<close> compares the distance to the head of the path with the step. Within
  the step and with fuel at least the per-hex cost, the tank sits exactly on the waypoint
  afterwards, its fuel is lower by exactly the cost and the waypoint is popped. Within
  the step but with less fuel, the path is cleared and position and fuel stay as they
  were, so the tank does not arrive. Otherwise the position moves the fraction
  \<open>step / dist < 1\<close> of the way towards the waypoint, the facing is recomputed, and fuel
  and path stay. The tick applies this to every tank of the state.
\<close>

theorem C5_movement_tick:
  assumes "map_of (tanks s) pid = Some t" and "alive t" and "path t = (nq, nr) # rest"
    and "0 \<le> move_speed t * dt"
  shows "(waypoint_distance t (nq, nr) \<le> move_speed t * dt \<and> FUEL_PER_HEX \<le> fuel t \<longrightarrow>
            (\<exists>t'. move_tank dt t = Some t' \<and> tank_q t' = of_int nq \<and> tank_r t' = of_int nr
                  \<and> fuel t' = fuel t - FUEL_PER_HEX \<and> path t' = rest))
       \<and> (waypoint_distance t (nq, nr) \<le> move_speed t * dt \<and> fuel t < FUEL_PER_HEX \<longrightarrow>
            (\<exists>t'. move_tank dt t = Some t' \<and> path t' = [] \<and> tank_q t' = tank_q t
                  \<and> tank_r t' = tank_r t \<and> fuel t' = fuel t))
       \<and> (move_speed t * dt < waypoint_distance t (nq, nr) \<longrightarrow>
            (\<exists>t' k. move_tank dt t = Some t' \<and> 0 \<le> k \<and> k < 1
                  \<and> k = move_speed t * dt / waypoint_distance t (nq, nr)
                  \<and> tank_q t' = tank_q t + k * (of_int nq - tank_q t)
                  \<and> tank_r t' = tank_r t + k * (of_int nr - tank_r t)
                  \<and> facing t' = atan2 (of_int nr - tank_r t) (of_int nq - tank_q t)
                  \<and> fuel t' = fuel t \<and> path t' = path t))
       \<and> (\<forall>s'. move_tanks dt s = Some s' \<longrightarrow> map_of (tanks s') pid = move_tank dt t)"
proof (intro conjI impI allI)
  assume "waypoint_distance t (nq, nr) \<le> move_speed t * dt \<and> FUEL_PER_HEX \<le> fuel t"
  then show "\<exists>t'. move_tank dt t = Some t' \<and> tank_q t' = of_int nq \<and> tank_r t' = of_int nr
                  \<and> fuel t' = fuel t - FUEL_PER_HEX \<and> path t' = rest"
    using move_tank_arrive [OF assms(2,3), of dt] by simp
next
  assume "waypoint_distance t (nq, nr) \<le> move_speed t * dt \<and> fuel t < FUEL_PER_HEX"
  then show "\<exists>t'. move_tank dt t = Some t' \<and> path t' = [] \<and> tank_q t' = tank_q t
                  \<and> tank_r t' = tank_r t \<and> fuel t' = fuel t"
    using move_tank_no_fuel [OF assms(2,3), of dt] by simp
next
  assume far: "move_speed t * dt < waypoint_distance t (nq, nr)"
  let ?d = "waypoint_distance t (nq, nr)"
  let ?k = "move_speed t * dt / ?d"
  have pos: "0 < ?d" using far assms(4) by linarith
  have k: "0 \<le> ?k" "?k < 1" using far assms(4) pos by simp_all
  from far have "\<not> ?d \<le> move_speed t * dt" by simp
  from move_tank_interpolate [OF assms(2,3) this assms(4)] k
  show "\<exists>t' k. move_tank dt t = Some t' \<and> 0 \<le> k \<and> k < 1
                  \<and> k = move_speed t * dt / waypoint_distance t (nq, nr)
                  \<and> tank_q t' = tank_q t + k * (of_int nq - tank_q t)
                  \<and> tank_r t' = tank_r t + k * (of_int nr - tank_r t)
                  \<and> facing t' = atan2 (of_int nr - tank_r t) (of_int nq - tank_q t)
                  \<and> fuel t' = fuel t \<and> path t' = path t"
    by simp
next
  fix s'
  assume "move_tanks dt s = Some s'"
  then obtain ts where ts: "move_tanks_list dt (tanks s) = Some ts" and s': "s' = s\<lparr>tanks := ts\<rparr>"
    by (auto simp: move_tanks_def split: option.splits)
  show "map_of (tanks s') pid = move_tank dt t"
    using move_tanks_list_lookup [OF ts, of pid] assms(1) by (simp add: s')
qed


theorem C5_witness:
  "(\<exists>t'. move_tank (1 / 10) ((new_tank ''p1'' 0 4 ''#e74c3c'')\<lparr>path := [(0, 4), (1, 4)]\<rparr>) = Some t'
         \<and> tank_q t' = 0 \<and> tank_r t' = 4 \<and> fuel t' = 76 \<and> path t' = [(1, 4)])
   \<and> (\<exists>t'. move_tank (1 / 10)
               ((new_tank ''p1'' 0 4 ''#e74c3c'')\<lparr>path := [(0, 4), (1, 4)], fuel := 3\<rparr>) = Some t'
         \<and> tank_q t' = 0 \<and> tank_r t' = 4 \<and> fuel t' = 3 \<and> path t' = [])
   \<and> (\<exists>t'. move_tank (1 / 10) ((new_tank ''p1'' 0 4 ''#e74c3c'')\<lparr>path := [(1, 4)], fuel := 3\<rparr>)
           = Some t'
         \<and> tank_q t' = 1 / 4 \<and> tank_r t' = 4 \<and> facing t' = 0 \<and> fuel t' = 3 \<and> path t' = [(1, 4)])"
proof -
  let ?a = "(new_tank ''p1'' 0 4 ''#e74c3c'')\<lparr>path := [(0, 4), (1, 4)]\<rparr>"
  let ?b = "(new_tank ''p1'' 0 4 ''#e74c3c'')\<lparr>path := [(0, 4), (1, 4)], fuel := 3\<rparr>"
  let ?c = "(new_tank ''p1'' 0 4 ''#e74c3c'')\<lparr>path := [(1, 4)], fuel := 3\<rparr>"
  let ?g = "\<lambda>t. one_tank_game t"
  have ha: "map_of (tanks (?g ?a)) ''p1'' = Some ?a" "alive ?a" "path ?a = (0, 4) # [(1, 4)]"
    "0 \<le> move_speed ?a * (1 / 10)"
    by (simp_all add: one_tank_game_def new_game_def new_tank_def constants)
  have hb: "map_of (tanks (?g ?b)) ''p1'' = Some ?b" "alive ?b" "path ?b = (0, 4) # [(1, 4)]"
    "0 \<le> move_speed ?b * (1 / 10)"
    by (simp_all add: one_tank_game_def new_game_def new_tank_def constants)
  have hc: "map_of (tanks (?g ?c)) ''p1'' = Some ?c" "alive ?c" "path ?c = (1, 4) # []"
    "0 \<le> move_speed ?c * (1 / 10)"
    by (simp_all add: one_tank_game_def new_game_def new_tank_def constants)
  have ca: "waypoint_distance ?a (0, 4) \<le> move_speed ?a * (1 / 10) \<and> FUEL_PER_HEX \<le> fuel ?a"
    by (simp add: waypoint_distance_def new_tank_def constants)
  have cb: "waypoint_distance ?b (0, 4) \<le> move_speed ?b * (1 / 10) \<and> fuel ?b < FUEL_PER_HEX"
    by (simp add: waypoint_distance_def new_tank_def constants)
  have dc: "waypoint_distance ?c (1, 4) = 1"
    by (simp add: waypoint_distance_def new_tank_def)
  have cc: "move_speed ?c * (1 / 10) < waypoint_distance ?c (1, 4)"
    unfolding dc by (simp add: new_tank_def constants)
  have va: "fuel ?a - FUEL_PER_HEX = 76" by (simp add: new_tank_def constants)
  have vb: "tank_q ?b = 0" "tank_r ?b = 4" "fuel ?b = 3" by (simp_all add: new_tank_def)
  have vc: "tank_q ?c + move_speed ?c * (1 / 10) / 1 * (of_int 1 - tank_q ?c) = 1 / 4"
    "tank_r ?c + move_speed ?c * (1 / 10) / 1 * (of_int 4 - tank_r ?c) = 4"
    "atan2 (of_int 4 - tank_r ?c) (of_int 1 - tank_q ?c) = 0" "fuel ?c = 3"
    by (simp_all add: new_tank_def constants atan2_def)
  from C5_movement_tick [OF ha] ca
  have "\<exists>t'. move_tank (1 / 10) ?a = Some t' \<and> tank_q t' = of_int 0 \<and> tank_r t' = of_int 4
         \<and> fuel t' = fuel ?a - FUEL_PER_HEX \<and> path t' = [(1, 4)]"
    by blast
  then have a: "\<exists>t'. move_tank (1 / 10) ?a = Some t'
         \<and> tank_q t' = 0 \<and> tank_r t' = 4 \<and> fuel t' = 76 \<and> path t' = [(1, 4)]"
    unfolding va by simp
  from C5_movement_tick [OF hb] cb
  have "\<exists>t'. move_tank (1 / 10) ?b = Some t' \<and> path t' = [] \<and> tank_q t' = tank_q ?b
                  \<and> tank_r t' = tank_r ?b \<and> fuel t' = fuel ?b"
    by blast
  then have b: "\<exists>t'. move_tank (1 / 10) ?b = Some t'
         \<and> tank_q t' = 0 \<and> tank_r t' = 4 \<and> fuel t' = 3 \<and> path t' = []"
    unfolding vb by blast
  from C5_movement_tick [OF hc] cc
  have "\<exists>t' k. move_tank (1 / 10) ?c = Some t' \<and> 0 \<le> k \<and> k < 1
                  \<and> k = move_speed ?c * (1 / 10) / waypoint_distance ?c (1, 4)
                  \<and> tank_q t' = tank_q ?c + k * (of_int 1 - tank_q ?c)
                  \<and> tank_r t' = tank_r ?c + k * (of_int 4 - tank_r ?c)
                  \<and> facing t' = atan2 (of_int 4 - tank_r ?c) (of_int 1 - tank_q ?c)
                  \<and> fuel t' = fuel ?c \<and> path t' = path ?c"
    by blast
  then have "\<exists>t'. move_tank (1 / 10) ?c = Some t'
                  \<and> tank_q t' = tank_q ?c + move_speed ?c * (1 / 10) / 1 * (of_int 1 - tank_q ?c)
                  \<and> tank_r t' = tank_r ?c + move_speed ?c * (1 / 10) / 1 * (of_int 4 - tank_r ?c)
                  \<and> facing t' = atan2 (of_int 4 - tank_r ?c) (of_int 1 - tank_q ?c)
                  \<and> fuel t' = fuel ?c \<and> path t' = path ?c"
    unfolding dc by blast
  then have c: "\<exists>t'. move_tank (1 / 10) ?c = Some t'
         \<and> tank_q t' = 1 / 4 \<and> tank_r t' = 4 \<and> facing t' = 0 \<and> fuel t' = 3 \<and> path t' = [(1, 4)]"
    unfolding vc hc(3) by blast
  from a b c show ?thesis by blast
qed

section \<open>Shell impact and death loot\<close>

lemma uniform_bounds:
  "0 \<le> g i \<Longrightarrow> g i \<le> 1 \<Longrightarrow> a \<le> b \<Longrightarrow> a \<le> uniform g i a b \<and> uniform g i a b \<le> b"
proof -
  assume g: "0 \<le> g i" "g i \<le> 1" and ab: "a \<le> b"
  have "0 \<le> (b - a) * g i" using g ab by simp
  moreover have "(b - a) * g i \<le> (b - a) * 1"
    using g ab by (intro mult_left_mono) simp_all
  ultimately show ?thesis by (simp add: uniform_def)
qed

lemma apply_loot_floors:
  "LOOT_FUEL_FLOOR \<le> fuel (apply_loot fr ar gr t)"
  "LOOT_AMMO_FLOOR \<le> ammo (apply_loot fr ar gr t)"
  "LOOT_GEAR_FLOOR \<le> gears (apply_loot fr ar gr t)"
  by (simp_all add: apply_loot_def Let_def)

lemma apply_loot_values:
  "fuel (apply_loot fr ar gr t) = max LOOT_FUEL_FLOOR (fuel t - loot_lost (fuel t) fr LOOT_FUEL_FLOOR)"
  "ammo (apply_loot fr ar gr t) = max LOOT_AMMO_FLOOR (ammo t - loot_lost (ammo t) ar LOOT_AMMO_FLOOR)"
  "gears (apply_loot fr ar gr t) = max LOOT_GEAR_FLOOR (gears t - loot_lost (gears t) gr LOOT_GEAR_FLOOR)"
  "alive (apply_loot fr ar gr t) = alive t" "hp (apply_loot fr ar gr t) = hp t"
  "max_hp (apply_loot fr ar gr t) = max_hp t"
  by (simp_all add: apply_loot_def Let_def)

lemma loot_lost_clamped:
  "0 \<le> loot_lost x ratio fl" "fl \<le> x \<Longrightarrow> fl \<le> x - loot_lost x ratio fl"
  by (simp_all add: loot_lost_def)

lemma impact_tank_kill:
  assumes "map_of (tanks s) pid = Some t" and "pid \<noteq> owner_id sh" and "alive t"
    and "hit sh t" and "lethal sh t" and "map_of (tanks s) (owner_id sh) = Some k"
  shows "\<exists>s'. impact_tank g now sh pid (s, i) = (s', i + 4)
     \<and> map_of (tanks s') pid =
         Some (apply_loot (uniform g i (2 / 10) (6 / 10)) (uniform g (i + 1) (2 / 10) (6 / 10))
                 (uniform g (i + 2) (2 / 10) (6 / 10))
                 (t\<lparr>hp := 0, alive := False, respawn_timer := RESPAWN_TIME, path := [],
                    deaths := deaths t + 1\<rparr>))
     \<and> map_of (tanks s') (owner_id sh) =
         Some (k\<lparr>score := score k + 10, kills := kills k + 1,
                 gears := min 99 (gears k + uniform g (i + 3) 5
                   (max 5 (loot_lost (gears t) (uniform g (i + 2) (2 / 10) (6 / 10)) LOOT_GEAR_FLOOR)))\<rparr>)"
  using assms
  by (simp add: impact_tank_def hit_def lethal_def Let_def put_tank_def update_conv')

lemma orphan_shell_game_eq:
  "orphan_shell_game =
     (new_game [])
       \<lparr>players := [(''w1'', \<lparr>pl_id = ''p1'', pl_name = ''ann'', pl_color = ''#e74c3c'', pl_ws_id = ''w1''\<rparr>)],
        tanks := [(''p1'', weak_tank)],
        shells := [(''s1'', new_shell 1 ''s1'' ''p2'' 0 4 (new_tank ''p2'' 1 4 ''#3498db''))]\<rparr>"
  by (simp add: orphan_shell_game_def remove_player_def two_tank_game_def shoot_def Let_def
      new_game_def put_tank_def new_shell_def hex_distance_def upgrade_level_def
      new_tank_def weak_tank_def constants)

text \<open>
  Two lethal hits at concrete inputs. First, the shell of a player who has left still
  lands (it is older than its lifetime at time 5) and kills \<open>p1\<close>, and \<open>p1\<close> keeps its 3
  fuel and 2 ammo, below the floors 15 and 10. Second, with the shooter present and
  holding 97 gears, the victim loses 16 of its 40 gears and the shooter ends at the cap
  of 99 gears: it has received 2, less than 5.
\<close>

theorem C7_counterexample:
  "map_option (\<lambda>(s, i). map (\<lambda>(p, t). (alive t, hp t, fuel t, ammo t)) (tanks s))
     (move_shells (\<lambda>_. 1 / 2) 5 (1 / 10) (orphan_shell_game, 0))
   = Some [(False, 0, 3, 2)]
   \<and> map (\<lambda>(p, t). (alive t, gears t))
       (tanks (two_tank_game weak_tank rich_tank))
     = [(True, 40), (True, 97)]
   \<and> map (\<lambda>(p, t). (alive t, gears t))
       (tanks (fst (impact_tank (\<lambda>_. 1 / 2) 5 (new_shell 1 ''s1'' ''p2'' 0 4 rich_tank) ''p1''
                      (two_tank_game weak_tank rich_tank, 0))))
     = [(False, 24), (True, 99)]"
proof -
  have a: "map_option (\<lambda>(s, i). map (\<lambda>(p, t). (alive t, hp t, fuel t, ammo t)) (tanks s))
     (move_shells (\<lambda>_. 1 / 2) 5 (1 / 10) (orphan_shell_game, 0))
   = Some [(False, 0, 3, 2)]"
    unfolding orphan_shell_game_eq
    by (simp add: move_shells_def shell_impact_def impact_tank_def new_shell_def new_game_def
        weak_tank_def new_tank_def hex_distance_def put_tank_def Let_def constants)
  have b: "map (\<lambda>(p, t). (alive t, gears t)) (tanks (two_tank_game weak_tank rich_tank))
     = [(True, 40), (True, 97)]"
    by (simp add: two_tank_game_def new_game_def weak_tank_def rich_tank_def new_tank_def)
  have c: "map (\<lambda>(p, t). (alive t, gears t))
       (tanks (fst (impact_tank (\<lambda>_. 1 / 2) 5 (new_shell 1 ''s1'' ''p2'' 0 4 rich_tank) ''p1''
                      (two_tank_game weak_tank rich_tank, 0))))
     = [(False, 24), (True, 99)]"
    by (simp add: impact_tank_def two_tank_game_def new_game_def new_shell_def weak_tank_def
        rich_tank_def new_tank_def hex_distance_def put_tank_def Let_def apply_loot_def
        loot_lost_def uniform_def upgrade_level_def constants)
  from a b c show ?thesis by blast
qed

text \<open>The larger of 5 and the computed gear loss is the larger of 5 and the gears lost.\<close>

lemma gear_lost_max:
  "max 5 (loot_lost x r 0) = max 5 (x - max 0 (x - loot_lost x r 0))"
  by (auto simp: loot_lost_def max_def min_def)

text \<open>
  C7, amended. After a lethal hit by a shell whose owner still has a tank, for any
  samples of the generator in \<open>[0, 1]\<close>, so loss ratios \<open>0.2 + 0.4 \<cdot> sample\<close> in
  \<open>[0.20, 0.60]\<close>: the victim is dead with fuel at least 15, ammo at least 10 and gears
  at least 0; each resource is the old amount less
  \<^verbatim>\<open>max(0, min(amount * ratio, amount - floor))\<close>, raised to the floor, and is not above the
  old amount when that was at or above the floor; the killer is credited the amount
  \<open>5 + (max(5, gears lost) - 5) \<cdot> sample\<close>, which is \<^verbatim>\<open>random.uniform\<close> between 5 and the
  gears the victim lost and never less than 5, up to the killer's cap of 99 gears, and
  the killer's fuel and ammo are unchanged.
\<close>

theorem C7_loot_on_kill:
  assumes "map_of (tanks s) pid = Some t" and "pid \<noteq> owner_id sh" and "alive t"
    and "hit sh t" and "lethal sh t"
    and "map_of (tanks s) (owner_id sh) = Some k"
    and "\<forall>j \<in> {i, i + 1, i + 2, i + 3}. 0 \<le> g j \<and> g j \<le> 1"
  shows "\<exists>s' v k' fr ar gr gained.
           impact_tank g now sh pid (s, i) = (s', i + 4)
         \<and> map_of (tanks s') pid = Some v \<and> map_of (tanks s') (owner_id sh) = Some k'
         \<and> fr = 2 / 10 + (6 / 10 - 2 / 10) * g i \<and> 2 / 10 \<le> fr \<and> fr \<le> 6 / 10
         \<and> ar = 2 / 10 + (6 / 10 - 2 / 10) * g (i + 1) \<and> 2 / 10 \<le> ar \<and> ar \<le> 6 / 10
         \<and> gr = 2 / 10 + (6 / 10 - 2 / 10) * g (i + 2) \<and> 2 / 10 \<le> gr \<and> gr \<le> 6 / 10
         \<and> \<not> alive v \<and> 15 \<le> fuel v \<and> 10 \<le> ammo v \<and> 0 \<le> gears v
         \<and> fuel v = max 15 (fuel t - max 0 (min (fuel t * fr) (fuel t - 15)))
         \<and> ammo v = max 10 (ammo t - max 0 (min (ammo t * ar) (ammo t - 10)))
         \<and> gears v = max 0 (gears t - max 0 (min (gears t * gr) (gears t - 0)))
         \<and> (15 \<le> fuel t \<longrightarrow> fuel v \<le> fuel t)
         \<and> (10 \<le> ammo t \<longrightarrow> ammo v \<le> ammo t)
         \<and> (0 \<le> gears t \<longrightarrow> gears v \<le> gears t)
         \<and> gained = 5 + (max 5 (gears t - gears v) - 5) * g (i + 3)
         \<and> 5 \<le> gained \<and> gained \<le> max 5 (gears t - gears v)
         \<and> gears k' = min 99 (gears k + gained)
         \<and> fuel k' = fuel k \<and> ammo k' = ammo k"
proof -
  let ?fr = "uniform g i (2 / 10) (6 / 10)"
  let ?ar = "uniform g (i + 1) (2 / 10) (6 / 10)"
  let ?gr = "uniform g (i + 2) (2 / 10) (6 / 10)"
  let ?lost = "loot_lost (gears t) ?gr LOOT_GEAR_FLOOR"
  let ?gained = "uniform g (i + 3) 5 (max 5 ?lost)"
  let ?v = "apply_loot ?fr ?ar ?gr
              (t\<lparr>hp := 0, alive := False, respawn_timer := RESPAWN_TIME, path := [],
                 deaths := deaths t + 1\<rparr>)"
  let ?k = "k\<lparr>score := score k + 10, kills := kills k + 1,
              gears := min 99 (gears k + ?gained)\<rparr>"
  from impact_tank_kill [OF assms(1-6), of g now i] obtain s'
    where s': "impact_tank g now sh pid (s, i) = (s', i + 4)"
      and v: "map_of (tanks s') pid = Some ?v"
      and k: "map_of (tanks s') (owner_id sh) = Some ?k"
    by blast
  have g: "0 \<le> g i" "g i \<le> 1" "0 \<le> g (i + 1)" "g (i + 1) \<le> 1"
    "0 \<le> g (i + 2)" "g (i + 2) \<le> 1" "0 \<le> g (i + 3)" "g (i + 3) \<le> 1"
    using assms(7) by simp_all
  have ab: "(2 / 10 :: real) \<le> 6 / 10" by simp
  have samples: "?fr = 2 / 10 + (6 / 10 - 2 / 10) * g i"
    "?ar = 2 / 10 + (6 / 10 - 2 / 10) * g (i + 1)"
    "?gr = 2 / 10 + (6 / 10 - 2 / 10) * g (i + 2)"
    by (simp_all only: uniform_def)
  have ratios: "2 / 10 \<le> ?fr \<and> ?fr \<le> 6 / 10" "2 / 10 \<le> ?ar \<and> ?ar \<le> 6 / 10"
    "2 / 10 \<le> ?gr \<and> ?gr \<le> 6 / 10"
    using uniform_bounds [of g i "2 / 10" "6 / 10"] uniform_bounds [of g "i + 1" "2 / 10" "6 / 10"]
      uniform_bounds [of g "i + 2" "2 / 10" "6 / 10"] g ab
    by blast+
  have floors: "\<not> alive ?v" "15 \<le> fuel ?v" "10 \<le> ammo ?v" "0 \<le> gears ?v"
    using apply_loot_floors [of ?fr ?ar ?gr] by (simp_all add: apply_loot_values constants)
  have vals: "fuel ?v = max 15 (fuel t - max 0 (min (fuel t * ?fr) (fuel t - 15)))"
    "ammo ?v = max 10 (ammo t - max 0 (min (ammo t * ?ar) (ammo t - 10)))"
    "gears ?v = max 0 (gears t - max 0 (min (gears t * ?gr) (gears t - 0)))"
    by (simp_all add: apply_loot_values loot_lost_def constants)
  have le: "15 \<le> fuel t \<longrightarrow> fuel ?v \<le> fuel t" "10 \<le> ammo t \<longrightarrow> ammo ?v \<le> ammo t"
    "0 \<le> gears t \<longrightarrow> gears ?v \<le> gears t"
    unfolding vals by simp_all
  have gv: "gears ?v = max 0 (gears t - ?lost)"
    by (simp add: apply_loot_values constants)
  have m: "max 5 ?lost = max 5 (gears t - gears ?v)"
    unfolding gv LOOT_GEAR_FLOOR_def by (rule gear_lost_max)
  have gained_eq: "?gained = 5 + (max 5 (gears t - gears ?v) - 5) * g (i + 3)"
    unfolding m [symmetric] by (simp only: uniform_def)
  have "(5 :: real) \<le> max 5 ?lost" by simp
  with uniform_bounds [of g "i + 3" 5 "max 5 ?lost"] g
  have "5 \<le> ?gained \<and> ?gained \<le> max 5 ?lost" by blast
  then have gained: "5 \<le> ?gained \<and> ?gained \<le> max 5 (gears t - gears ?v)"
    unfolding m .
  have killer: "gears ?k = min 99 (gears k + ?gained)" "fuel ?k = fuel k" "ammo ?k = ammo k"
    by simp_all
  from s' v k samples ratios floors vals le gained_eq gained killer show ?thesis by blast
qed

theorem C7_witness:
  "\<exists>s' v k'.
      impact_tank (\<lambda>_. 1 / 2) 5 (new_shell 1 ''s1'' ''p2'' 0 4 (new_tank ''p2'' 1 4 ''#3498db'')) ''p1''
        (two_tank_game weak_tank (new_tank ''p2'' 1 4 ''#3498db''), 0) = (s', 4)
    \<and> map_of (tanks s') ''p1'' = Some v \<and> map_of (tanks s') ''p2'' = Some k'
    \<and> \<not> alive v \<and> fuel v = 15 \<and> ammo v = 10 \<and> gears v = 24
    \<and> gears k' = 21 / 2 \<and> fuel k' = 80 \<and> ammo k' = 50"
proof -
  let ?k = "new_tank ''p2'' 1 4 ''#3498db''"
  let ?sh = "new_shell 1 ''s1'' ''p2'' 0 4 ?k"
  let ?s = "two_tank_game weak_tank ?k"
  let ?g = "\<lambda>_::nat. 1 / 2 :: real"
  have h1: "map_of (tanks ?s) ''p1'' = Some weak_tank"
    by (simp add: two_tank_game_def new_game_def)
  have h2: "''p1'' \<noteq> owner_id ?sh" by (simp add: new_shell_def)
  have h3: "alive weak_tank" by (simp add: weak_tank_def new_tank_def)
  have h4: "hit ?sh weak_tank"
    by (simp add: hit_def new_shell_def weak_tank_def new_tank_def hex_distance_def)
  have h5: "lethal ?sh weak_tank"
    by (simp add: lethal_def new_shell_def weak_tank_def new_tank_def upgrade_level_def constants)
  have h6: "map_of (tanks ?s) (owner_id ?sh) = Some ?k"
    by (simp add: two_tank_game_def new_game_def new_shell_def)
  have h7: "\<forall>j \<in> {0, 0 + 1, 0 + 2, 0 + 3}. 0 \<le> ?g j \<and> ?g j \<le> 1" by simp
  have own: "owner_id ?sh = ''p2''" by (simp add: new_shell_def)
  have vals: "fuel weak_tank = 3" "ammo weak_tank = 2" "gears weak_tank = 40"
    "gears ?k = 0" "fuel ?k = 80" "ammo ?k = 50"
    by (simp_all add: weak_tank_def new_tank_def)
  from C7_loot_on_kill [OF h1 h2 h3 h4 h5 h6 h7, of 5]
  obtain s' v k' fr ar gr gained where
    r: "impact_tank ?g 5 ?sh ''p1'' (?s, 0) = (s', 0 + 4)"
      "map_of (tanks s') ''p1'' = Some v" "map_of (tanks s') (owner_id ?sh) = Some k'"
      "\<not> alive v"
    and ratios: "fr = 2 / 10 + (6 / 10 - 2 / 10) * (1 / 2)"
      "ar = 2 / 10 + (6 / 10 - 2 / 10) * (1 / 2)" "gr = 2 / 10 + (6 / 10 - 2 / 10) * (1 / 2)"
    and res: "fuel v = max 15 (fuel weak_tank - max 0 (min (fuel weak_tank * fr) (fuel weak_tank - 15)))"
      "ammo v = max 10 (ammo weak_tank - max 0 (min (ammo weak_tank * ar) (ammo weak_tank - 10)))"
      "gears v = max 0 (gears weak_tank - max 0 (min (gears weak_tank * gr) (gears weak_tank - 0)))"
    and gain: "gained = 5 + (max 5 (gears weak_tank - gears v) - 5) * (1 / 2)"
      "gears k' = min 99 (gears ?k + gained)" "fuel k' = fuel ?k" "ammo k' = ammo ?k"
    by blast
  have v: "fuel v = 15" "ammo v = 10" "gears v = 24"
    using res unfolding ratios vals by simp_all
  have "gained = 21 / 2" using gain(1) unfolding v vals by simp
  with gain(2-4) have k: "gears k' = 21 / 2" "fuel k' = 80" "ammo k' = 50"
    unfolding vals by simp_all
  from r have "impact_tank ?g 5 ?sh ''p1'' (?s, 0) = (s', 4)" by simp
  with r(2-4) v k show ?thesis unfolding own by blast
qed

section \<open>Fort release on death\<close>

text \<open>
  What the release does for any state: it frees all but \<^verbatim>\<open>FORT_RELEASE_KEEP\<close> of the
  victim's forts, clears owner, progress and contest of each and keeps the ever-owned
  flag, and every released fort is at most as far from the victim as every kept one.
\<close>

lemma length_forts_to_release:
  "length (forts_to_release pid t fs) =
     length (filter (\<lambda>(fid, f). owner f = Some pid) fs) - FORT_RELEASE_KEEP"
  by (simp add: forts_to_release_def Let_def)

lemma release_fort_fields:
  "owner (release_fort f) = None" "capture_progress (release_fort f) = 0"
  "capturing_player (release_fort f) = None" "was_owned (release_fort f) = was_owned f"
  by (simp_all add: release_fort_def)

lemma sorted_take_drop:
  assumes "x \<in> set (take n (sort_key k xs))" and "y \<in> set (drop n (sort_key k xs))"
  shows "k x \<le> k y"
proof -
  have "sorted (map k (take n (sort_key k xs) @ drop n (sort_key k xs)))"
    by simp
  then show ?thesis
    using assms unfolding map_append sorted_append by auto
qed

lemma released_not_farther_than_kept:
  assumes "kept \<in> set (take FORT_RELEASE_KEEP
              (sort_key (\<lambda>(fid, f). - offset_distance t f)
                 (filter (\<lambda>(fid, f). owner f = Some pid) fs)))"
    and "released \<in> set (drop FORT_RELEASE_KEEP
              (sort_key (\<lambda>(fid, f). - offset_distance t f)
                 (filter (\<lambda>(fid, f). owner f = Some pid) fs)))"
  shows "offset_distance t (snd released) \<le> offset_distance t (snd kept)"
  using sorted_take_drop [OF assms] by (simp add: case_prod_beta)

text \<open>
  C2. When a tank dies owning more than 2 forts, the forts beyond 2 are released, owner
  and progress cleared and the ever-owned flag kept, and the forts released are those
  farthest from the victim by \<open>|dq| + |dr|\<close>. The code at a concrete input: \<open>p1\<close> dies at
  \<open>(0, 4)\<close> owning forts at offset distances 1, 2 and 3. The fort at distance 1 is the
  one released; the forts at distances 2 and 3 stay with \<open>p1\<close>.
\<close>

theorem C2_nearest_forts_released:
  "map (\<lambda>(fid, f). (fid, offset_distance weak_tank f, owner f, was_owned f))
     (forts (fst (impact_tank (\<lambda>_. 1 / 2) 5
        (new_shell 1 ''s1'' ''p2'' 0 4 (new_tank ''p2'' 0 3 ''#3498db'')) ''p1''
        (three_fort_game, 0))))
   = [(''fort_0'', 1, None, True), (''fort_1'', 2, Some ''p1'', True),
      (''fort_2'', 3, Some ''p1'', True)]"
  by (simp add: impact_tank_def three_fort_game_def two_tank_game_def new_game_def
      owned_fort_def new_fort_def new_shell_def weak_tank_def new_tank_def hex_distance_def
      put_tank_def Let_def release_forts_def forts_to_release_def release_fort_def
      offset_distance_def apply_loot_def constants)

section \<open>Capture contest\<close>

text \<open>
  What one capture step does for any fort and any \<open>dt \<ge> 0\<close>: the progress stays
  between 0 and the effective capture time (5, or 7.5 once the fort has been owned); the
  owner changes only when the single occupant is the contester and the progress plus
  \<open>dt\<close> reaches the effective capture time, and then the ever-owned flag is set, the
  contest cleared, and the capturer's score grows by 5 and its capture count by 1.
\<close>

lemma effective_capture_time_values:
  "effective_capture_time f = (if was_owned f then 15 / 2 else 5)"
  by (simp add: effective_capture_time_def constants RECAPTURE_MULTIPLIER_def)

lemma on_fort_key: "on_fort f ts = [c] \<Longrightarrow> \<exists>t. map_of ts c = Some t"
proof -
  assume "on_fort f ts = [c]"
  then have "c \<in> set (on_fort f ts)" by simp
  then have "c \<in> fst ` set ts" by (auto simp: on_fort_def)
  then show ?thesis by (metis map_of_eq_None_iff not_Some_eq)
qed

lemma capture_step_fields:
  "(was_owned (fst (capture_step now dt f s)) = was_owned f
      \<and> (capture_progress (fst (capture_step now dt f s)) = capture_progress f
         \<or> capture_progress (fst (capture_step now dt f s))
              = max 0 (capture_progress f - dt * (1 / 2))
         \<or> capture_progress (fst (capture_step now dt f s))
              = max 0 (capture_progress f - dt * (3 / 2))
         \<or> capture_progress (fst (capture_step now dt f s))
              = max 0 (capture_progress f - dt * 2)
         \<or> (\<not> effective_capture_time f \<le> capture_progress f + dt
            \<and> capture_progress (fst (capture_step now dt f s)) = capture_progress f + dt)))
   \<or> (was_owned (fst (capture_step now dt f s))
      \<and> capture_progress (fst (capture_step now dt f s)) = effective_capture_time f)"
proof (cases "on_fort f (tanks s)")
  case Nil
  then show ?thesis by (simp add: capture_step_def Let_def)
next
  case (Cons c rest)
  show ?thesis
  proof (cases rest)
    case Nil
    with Cons have on: "on_fort f (tanks s) = [c]" by simp
    show ?thesis by (simp add: capture_step_def on Let_def)
  next
    case (Cons c' rest')
    with \<open>on_fort f (tanks s) = c # rest\<close> have on: "on_fort f (tanks s) = c # c' # rest'"
      by simp
    show ?thesis by (simp add: capture_step_def on)
  qed
qed

lemma decay_bounds:
  assumes "0 \<le> (dt::real)" and "0 \<le> c" and "0 \<le> p" and "p \<le> e"
  shows "0 \<le> max 0 (p - dt * c) \<and> max 0 (p - dt * c) \<le> e"
proof -
  have "0 \<le> dt * c" using assms(1,2) by simp
  then show ?thesis using assms(3,4) by (simp add: max_def)
qed

lemma capture_step_progress_ok:
  assumes "0 \<le> dt" and "progress_ok f"
  shows "progress_ok (fst (capture_step now dt f s))"
proof -
  let ?f' = "fst (capture_step now dt f s)"
  let ?p = "capture_progress f" and ?e = "effective_capture_time f"
  from assms(2) have p: "0 \<le> ?p" "?p \<le> ?e" by (simp_all add: progress_ok_def)
  have e: "0 \<le> ?e" "?e \<le> 15 / 2" by (simp_all add: effective_capture_time_values)
  note d1 = decay_bounds [OF assms(1) _ p, of "1 / 2"]
  note d2 = decay_bounds [OF assms(1) _ p, of "3 / 2"]
  note d3 = decay_bounds [OF assms(1) _ p, of 2]
  from capture_step_fields [of now dt f s]
  consider (same) "was_owned ?f' = was_owned f" "0 \<le> capture_progress ?f'"
      "capture_progress ?f' \<le> ?e"
    | (transfer) "was_owned ?f'" "capture_progress ?f' = ?e"
    using d1 d2 d3 p assms(1) by fastforce
  then show ?thesis
  proof cases
    case same
    then have "effective_capture_time ?f' = ?e" by (simp add: effective_capture_time_def)
    with same show ?thesis by (simp add: progress_ok_def)
  next
    case transfer
    then have "effective_capture_time ?f' = 15 / 2" by (simp add: effective_capture_time_values)
    with transfer e show ?thesis by (simp add: progress_ok_def)
  qed
qed

lemma capture_step_transfer:
  assumes "owner (fst (capture_step now dt f s)) \<noteq> owner f"
  shows "\<exists>c t. on_fort f (tanks s) = [c] \<and> capturing_player f = Some c
          \<and> effective_capture_time f \<le> capture_progress f + dt
          \<and> map_of (tanks s) c = Some t
          \<and> capture_step now dt f s =
              (f\<lparr>capture_progress := effective_capture_time f, owner := Some c,
                 was_owned := True, capturing_player := None\<rparr>,
               (put_tank c (t\<lparr>score := score t + 5, fort_captures := fort_captures t + 1\<rparr>) s)
                 \<lparr>pending_events := pending_events s @
                    [Capturefeed (info_name (player_info s c))
                       (info_color ''#fff'' (player_info s c)) (ftype f) now]\<rparr>)"
proof (cases "on_fort f (tanks s)")
  case Nil
  with assms show ?thesis by (simp add: capture_step_def Let_def split: if_splits)
next
  case (Cons c rest)
  show ?thesis
  proof (cases rest)
    case Nil
    with Cons have on: "on_fort f (tanks s) = [c]" by simp
    from on_fort_key [OF on] obtain t where t: "map_of (tanks s) c = Some t" by blast
    from assms show ?thesis
      by (simp add: capture_step_def on t Let_def split: if_splits)
  next
    case (Cons c' rest')
    with \<open>on_fort f (tanks s) = c # rest\<close> assms show ?thesis
      by (simp add: capture_step_def)
  qed
qed

lemma capture_step_same_owner:
  "\<not> effective_capture_time f \<le> capture_progress f + dt \<Longrightarrow>
   owner (fst (capture_step now dt f s)) = owner f"
  using capture_step_transfer [of now dt f s] by blast


lemma update_captures_list_progress_ok:
  "0 \<le> dt \<Longrightarrow> list_all (\<lambda>(fid, f). progress_ok f) fs \<Longrightarrow>
   list_all (\<lambda>(fid, f). progress_ok f) (fst (update_captures_list now dt fs s))"
proof (induction fs arbitrary: s)
  case Nil
  then show ?case by simp
next
  case (Cons x fs)
  obtain fid f where x: "x = (fid, f)" by (cases x)
  from Cons.prems x have f: "progress_ok f" and rest: "list_all (\<lambda>(fid, f). progress_ok f) fs"
    by simp_all
  from capture_step_progress_ok [OF Cons.prems(1) f] Cons.IH [OF Cons.prems(1) rest]
  show ?case by (simp add: x case_prod_beta Let_def)
qed

lemma update_captures_progress_ok:
  "0 \<le> dt \<Longrightarrow> list_all (\<lambda>(fid, f). progress_ok f) (forts s) \<Longrightarrow>
   list_all (\<lambda>(fid, f). progress_ok f) (forts (update_captures now dt s))"
  using update_captures_list_progress_ok [of dt "forts s" now s]
  by (simp add: update_captures_def case_prod_beta)

text \<open>
  C3. The progress of every fort stays in \<open>[0, effective capture time]\<close>, ownership
  transfers only when the progress reaches that bound, and on the transfer tick the
  progress is reset to 0, the ever-owned flag set, the contest cleared and the capturer
  credited with 5 points and one capture. The code at a concrete input: \<open>p1\<close> stands
  alone on a never-owned fort it is contesting with progress 4.95; after a tick of 0.1 s
  \<open>p1\<close> owns the fort, has 5 points and one capture, the flag is set and the contest
  cleared, but the progress is 5, not 0. From that state, with \<open>p1\<close> gone from the fort
  and \<open>p2\<close> alone on it, \<open>p2\<close> owns the fort after 28 ticks of 0.1 s, where filling the
  bar of 7.5 from 0 takes 75 ticks.
\<close>

theorem C3_progress_kept_at_transfer:
  "summary (update_captures 7 (1 / 10)
      (capture_game (new_tank ''p1'' 0 4 ''#e74c3c'') (new_tank ''p2'' 4 0 ''#3498db'')
         ((new_fort ''fort_0'' 0 4 ''fuel'')
            \<lparr>capturing_player := Some ''p1'', capture_progress := 99 / 20\<rparr>)))
   = ([(Some ''p1'', 5, True, None)], [(5, 1), (0, 0)])
   \<and> fst (summary (((update_captures 7 (1 / 10)) ^^ 28)
      (capture_game (new_tank ''p1'' 4 0 ''#e74c3c'') (new_tank ''p2'' 0 4 ''#3498db'')
         ((new_fort ''fort_0'' 0 4 ''fuel'')
            \<lparr>owner := Some ''p1'', capture_progress := 5, was_owned := True\<rparr>))))
   = [(Some ''p2'', 15 / 2, True, None)]"
  by (simp add: eval_nat_numeral summary_def update_captures_def capture_step_def on_fort_def
      capture_game_def
      two_tank_game_def new_game_def new_tank_def new_fort_def put_tank_def Let_def
      effective_capture_time_def RECAPTURE_MULTIPLIER_def constants)

section \<open>The bounds of a tank along a tick\<close>

lemma keeps_ok_refl: "keeps_ok ts ts"
  by (simp add: keeps_ok_def list_all2_refl)

lemma keeps_ok_trans:
  assumes "keeps_ok ts ts'" and "keeps_ok ts' ts''"
  shows "keeps_ok ts ts''"
  using assms unfolding keeps_ok_def
  by (rule list_all2_trans [rotated]) auto

lemma keeps_ok_Cons:
  "keeps_ok ((p, t) # ts) ((p', t') # ts') \<longleftrightarrow>
     p = p' \<and> (tank_ok t \<longrightarrow> tank_ok t') \<and> keeps_ok ts ts'"
  by (simp add: keeps_ok_def)

lemma keeps_ok_update:
  "map_of ts pid = Some t \<Longrightarrow> (tank_ok t \<longrightarrow> tank_ok t') \<Longrightarrow>
   keeps_ok ts (AList.update pid t' ts)"
proof (induction ts)
  case Nil
  then show ?case by simp
next
  case (Cons x ts)
  obtain p u where x: "x = (p, u)" by (cases x)
  show ?case
  proof (cases "p = pid")
    case True
    with Cons.prems x show ?thesis by (simp add: keeps_ok_Cons keeps_ok_refl)
  next
    case False
    with Cons x show ?thesis by (simp add: keeps_ok_Cons)
  qed
qed

lemma keeps_ok_put_tank:
  "map_of (tanks s) pid = Some t \<Longrightarrow> (tank_ok t \<longrightarrow> tank_ok t') \<Longrightarrow>
   keeps_ok (tanks s) (tanks (put_tank pid t' s))"
  by (simp add: put_tank_def keeps_ok_update)

lemma keeps_ok_map:
  "(\<And>t. tank_ok t \<longrightarrow> tank_ok (f t)) \<Longrightarrow> keeps_ok ts (map (\<lambda>(p, t). (p, f t)) ts)"
  by (induction ts) (auto simp: keeps_ok_def)

lemma keeps_ok_nth:
  "keeps_ok ts ts' \<Longrightarrow>
   length ts' = length ts
   \<and> (\<forall>j < length ts. fst (ts' ! j) = fst (ts ! j)
          \<and> (tank_ok (snd (ts ! j)) \<longrightarrow> tank_ok (snd (ts' ! j))))"
  by (auto simp: keeps_ok_def list_all2_conv_all_nth)

subsection \<open>Movement keeps the bounds\<close>

lemma move_tank_ok:
  assumes "0 \<le> move_speed t * dt"
  shows "\<exists>t'. move_tank dt t = Some t' \<and> (tank_ok t \<longrightarrow> tank_ok t')"
proof (cases "alive t")
  case False
  then show ?thesis by (simp add: move_tank_def)
next
  case True
  show ?thesis
  proof (cases "path t")
    case Nil
    with True show ?thesis by (simp add: move_tank_def)
  next
    case (Cons c rest)
    obtain nq nr where c: "c = (nq, nr)" by (cases c)
    let ?d = "waypoint_distance t (nq, nr)"
    have p: "path t = (nq, nr) # rest" using Cons c by simp
    consider (arrive) "?d \<le> move_speed t * dt" "\<not> fuel t < FUEL_PER_HEX"
      | (halt) "?d \<le> move_speed t * dt" "fuel t < FUEL_PER_HEX"
      | (far) "\<not> ?d \<le> move_speed t * dt"
      by blast
    then show ?thesis
    proof cases
      case arrive
      from move_tank_arrive [OF True p arrive] arrive(2)
      show ?thesis by (auto simp: tank_ok_def FUEL_PER_HEX_def)
    next
      case halt
      from move_tank_no_fuel [OF True p halt] show ?thesis by (simp add: tank_ok_def)
    next
      case far
      from move_tank_interpolate [OF True p far assms] show ?thesis by (simp add: tank_ok_def)
    qed
  qed
qed

lemma move_tanks_list_ok:
  "\<forall>x \<in> set ts. 0 \<le> move_speed (snd x) * dt \<Longrightarrow>
   \<exists>ts'. move_tanks_list dt ts = Some ts' \<and> keeps_ok ts ts'"
proof (induction ts)
  case Nil
  then show ?case by (simp add: keeps_ok_refl)
next
  case (Cons x ts)
  obtain p t where x: "x = (p, t)" by (cases x)
  from Cons.prems x have "0 \<le> move_speed t * dt" by simp
  from move_tank_ok [OF this] obtain t' where
    t': "move_tank dt t = Some t'" "tank_ok t \<longrightarrow> tank_ok t'" by blast
  from Cons obtain ts' where ts': "move_tanks_list dt ts = Some ts'" "keeps_ok ts ts'"
    by auto
  show ?case by (simp add: x t' ts' keeps_ok_Cons)
qed


subsection \<open>Shell impact keeps the bounds\<close>

lemma apply_loot_ok:
  assumes "0 \<le> hp t" "hp t \<le> max_hp t" "fuel t \<le> 120" "ammo t \<le> 100" "gears t \<le> 99"
  shows "tank_ok (apply_loot fr ar gr t)"
proof -
  let ?t' = "apply_loot fr ar gr t"
  have lo: "15 \<le> fuel ?t'" "10 \<le> ammo ?t'" "0 \<le> gears ?t'"
    using apply_loot_floors [of fr ar gr t] by (simp_all add: constants)
  have "0 \<le> loot_lost (fuel t) fr LOOT_FUEL_FLOOR" "0 \<le> loot_lost (ammo t) ar LOOT_AMMO_FLOOR"
    "0 \<le> loot_lost (gears t) gr LOOT_GEAR_FLOOR"
    by (rule loot_lost_clamped(1))+
  then have hi: "fuel ?t' \<le> 120" "ammo ?t' \<le> 100" "gears ?t' \<le> 99"
    using assms(3-5) by (simp_all add: apply_loot_values constants)
  have "hp ?t' = hp t" "max_hp ?t' = max_hp t" by (simp_all add: apply_loot_values)
  with lo hi assms(1,2) show ?thesis by (simp add: tank_ok_def)
qed

lemma impact_tank_ok:
  assumes "0 \<le> damage sh" and "0 \<le> g (i + 3)"
  shows "keeps_ok (tanks s) (tanks (fst (impact_tank g now sh pid (s, i))))"
proof (cases "map_of (tanks s) pid")
  case None
  then show ?thesis by (simp add: impact_tank_def keeps_ok_refl)
next
  case (Some t)
  show ?thesis
  proof (cases "pid \<noteq> owner_id sh \<and> alive t \<and> hit sh t")
    case False
    then show ?thesis by (auto simp: impact_tank_def Some hit_def keeps_ok_refl)
  next
    case True
    then have c: "pid \<noteq> owner_id sh" "alive t" "hit sh t" by simp_all
    show ?thesis
    proof (cases "lethal sh t")
      case False
      have "tank_ok t \<longrightarrow> tank_ok (t\<lparr>hp := hp t - damage sh\<rparr>)"
        using False assms(1) by (simp add: tank_ok_def lethal_def)
      from keeps_ok_put_tank [OF Some this] False c
      show ?thesis by (simp add: impact_tank_def Some hit_def lethal_def Let_def)
    next
      case True
      let ?victim = "t\<lparr>hp := 0, alive := False, respawn_timer := RESPAWN_TIME, path := []\<rparr>"
      have v: "tank_ok t \<longrightarrow> tank_ok ?victim" by (simp add: tank_ok_def)
      show ?thesis
      proof (cases "map_of (tanks s) (owner_id sh)")
        case None
        from keeps_ok_put_tank [OF Some v] True c None
        show ?thesis by (simp add: impact_tank_def Some hit_def lethal_def Let_def put_tank_def)
      next
        case (Some k)
        let ?fr = "uniform g i (2 / 10) (6 / 10)"
        let ?ar = "uniform g (i + 1) (2 / 10) (6 / 10)"
        let ?gr = "uniform g (i + 2) (2 / 10) (6 / 10)"
        let ?lost = "loot_lost (gears t) ?gr LOOT_GEAR_FLOOR"
        let ?gained = "uniform g (i + 3) 5 (max 5 ?lost)"
        let ?v = "apply_loot ?fr ?ar ?gr (?victim\<lparr>deaths := deaths t + 1\<rparr>)"
        let ?k = "k\<lparr>score := score k + 10, kills := kills k + 1,
                    gears := min 99 (gears k + ?gained)\<rparr>"
        let ?s1 = "put_tank pid ?v s"
        have v2: "tank_ok t \<longrightarrow> tank_ok ?v"
          using apply_loot_ok [of "?victim\<lparr>deaths := deaths t + 1\<rparr>" ?fr ?ar ?gr]
          by (simp add: tank_ok_def)
        have "0 \<le> (max 5 ?lost - 5) * g (i + 3)" using assms(2) by simp
        then have "0 \<le> ?gained" by (simp add: uniform_def)
        then have k2: "tank_ok k \<longrightarrow> tank_ok ?k" by (simp add: tank_ok_def)
        have a: "keeps_ok (tanks s) (tanks ?s1)"
          using keeps_ok_put_tank [OF \<open>map_of (tanks s) pid = Some t\<close> v2] .
        have "map_of (tanks ?s1) (owner_id sh) = Some k"
          using Some c(1) by (simp add: put_tank_def update_conv')
        from keeps_ok_put_tank [OF this k2]
        have b: "keeps_ok (tanks ?s1) (tanks (put_tank (owner_id sh) ?k ?s1))" .
        from impact_tank_kill [OF \<open>map_of (tanks s) pid = Some t\<close> c(1,2,3) True Some, of g now i]
        have "tanks (fst (impact_tank g now sh pid (s, i))) = tanks (put_tank (owner_id sh) ?k ?s1)"
          using \<open>map_of (tanks s) pid = Some t\<close> c True Some
          by (simp add: impact_tank_def hit_def lethal_def Let_def put_tank_def)
        with keeps_ok_trans [OF a b] show ?thesis by simp
      qed
    qed
  qed
qed


lemma fold_keeps_ok:
  assumes "\<And>x u j. keeps_ok (tanks u) (tanks (fst (f x (u, j))))"
  shows "keeps_ok (tanks (fst si)) (tanks (fst (fold f xs si)))"
proof (induction xs arbitrary: si)
  case Nil
  show ?case by (simp add: keeps_ok_refl)
next
  case (Cons x xs)
  obtain u j where si: "si = (u, j)" by (cases si)
  from assms [of u x j] have a: "keeps_ok (tanks (fst si)) (tanks (fst (f x si)))"
    by (simp add: si)
  from keeps_ok_trans [OF a Cons.IH [of "f x si"]] show ?case by simp
qed

lemma shell_impact_ok:
  assumes "0 \<le> damage sh" and "\<forall>j. 0 \<le> g j"
  shows "keeps_ok (tanks (fst si)) (tanks (fst (shell_impact g now sh si)))"
  unfolding shell_impact_def
  by (rule fold_keeps_ok) (simp add: impact_tank_ok assms)

lemma move_shells_list_ok:
  assumes "\<forall>x \<in> set shs. 0 \<le> damage (snd x) \<and> 0 \<le> speed (snd x) * dt" and "\<forall>j. 0 \<le> g j"
  shows "\<exists>kept s' i'. move_shells_list g now dt shs si = Some (kept, s', i')
           \<and> keeps_ok (tanks (fst si)) (tanks s')"
  using assms(1)
proof (induction shs arbitrary: si)
  case Nil
  show ?case by (cases si) (simp add: keeps_ok_refl)
next
  case (Cons x shs)
  obtain sid sh where x: "x = (sid, sh)" by (cases x)
  from Cons.prems x have sh: "0 \<le> damage sh" "0 \<le> speed sh * dt"
    and rest: "\<forall>x \<in> set shs. 0 \<le> damage (snd x) \<and> 0 \<le> speed (snd x) * dt"
    by simp_all
  let ?dq = "of_int (shell_target_q sh) - shell_q sh"
  let ?dr = "of_int (shell_target_r sh) - shell_r sh"
  let ?dist = "sqrt (?dq * ?dq + ?dr * ?dr)"
  show ?case
  proof (cases "?dist \<le> speed sh * dt \<or> now - created sh > 3")
    case True
    from Cons.IH [OF rest, of "shell_impact g now sh si"] obtain kept s' i' where
      r: "move_shells_list g now dt shs (shell_impact g now sh si) = Some (kept, s', i')"
      and k: "keeps_ok (tanks (fst (shell_impact g now sh si))) (tanks s')"
      by blast
    from keeps_ok_trans [OF shell_impact_ok [OF sh(1) assms(2)] k]
    have "keeps_ok (tanks (fst si)) (tanks s')" .
    with r True show ?thesis by (simp add: x Let_def)
  next
    case False
    then have "?dist \<noteq> 0" using sh(2) by linarith
    moreover from Cons.IH [OF rest, of si] obtain kept s' i' where
      "move_shells_list g now dt shs si = Some (kept, s', i')"
      "keeps_ok (tanks (fst si)) (tanks s')"
      by blast
    ultimately show ?thesis using False by (simp add: x Let_def)
  qed
qed

lemma move_shells_ok:
  assumes "\<forall>x \<in> set (shells s). 0 \<le> damage (snd x) \<and> 0 \<le> speed (snd x) * dt"
    and "\<forall>j. 0 \<le> g j"
  shows "\<exists>s' i'. move_shells g now dt (s, i) = Some (s', i') \<and> keeps_ok (tanks s) (tanks s')"
proof -
  from move_shells_list_ok [of "shells s" dt g now "(s, i)"] assms
  obtain kept s' i' where "move_shells_list g now dt (shells s) (s, i) = Some (kept, s', i')"
    "keeps_ok (tanks s) (tanks s')"
    by auto
  then show ?thesis by (simp add: move_shells_def)
qed

subsection \<open>The capture contest keeps the bounds\<close>

lemma capture_step_tanks_ok: "keeps_ok (tanks s) (tanks (snd (capture_step now dt f s)))"
proof (cases "on_fort f (tanks s)")
  case Nil
  then show ?thesis by (simp add: capture_step_def Let_def keeps_ok_refl)
next
  case (Cons c rest)
  show ?thesis
  proof (cases rest)
    case Nil
    with Cons have on: "on_fort f (tanks s) = [c]" by simp
    from on_fort_key [OF on] obtain t where t: "map_of (tanks s) c = Some t" by blast
    have "tank_ok t \<longrightarrow> tank_ok (t\<lparr>score := score t + 5, fort_captures := fort_captures t + 1\<rparr>)"
      by (simp add: tank_ok_def)
    from keeps_ok_put_tank [OF t this]
    show ?thesis by (simp add: capture_step_def on t Let_def keeps_ok_refl put_tank_def)
  next
    case (Cons c' rest')
    with \<open>on_fort f (tanks s) = c # rest\<close> show ?thesis
      by (simp add: capture_step_def keeps_ok_refl)
  qed
qed

lemma update_captures_list_tanks_ok:
  "keeps_ok (tanks s) (tanks (snd (update_captures_list now dt fs s)))"
proof (induction fs arbitrary: s)
  case Nil
  show ?case by (simp add: keeps_ok_refl)
next
  case (Cons x fs)
  obtain fid f where x: "x = (fid, f)" by (cases x)
  from keeps_ok_trans [OF capture_step_tanks_ok [of s now dt f]
      Cons.IH [of "snd (capture_step now dt f s)"]]
  show ?case by (simp add: x case_prod_beta Let_def)
qed

lemma update_captures_tanks_ok: "keeps_ok (tanks s) (tanks (update_captures now dt s))"
  using update_captures_list_tanks_ok [of s now dt "forts s"]
  by (simp add: update_captures_def case_prod_beta)


subsection \<open>Resource generation keeps the bounds\<close>

lemma credit_ok:
  assumes "0 \<le> dt" and "tank_ok t"
  shows "tank_ok (credit dt ft t)"
proof -
  have "0 \<le> FORT_FUEL_GEN * dt" "0 \<le> FORT_AMMO_GEN * dt" "0 \<le> FORT_GEAR_GEN * dt"
    using assms(1) by (simp_all add: constants)
  then show ?thesis
    using assms(2) by (simp add: credit_def tank_ok_def Let_def min_def)
qed

lemma fold_credit_ok: "0 \<le> dt \<Longrightarrow> tank_ok t \<Longrightarrow> tank_ok (fold (credit dt) fts t)"
  by (induction fts arbitrary: t) (simp_all add: credit_ok)

lemma credit_owner_ok:
  assumes "0 \<le> dt"
  shows "keeps_ok (tanks s) (tanks (credit_owner dt x s))"
proof -
  obtain pid fts where x: "x = (pid, fts)" by (cases x)
  show ?thesis
  proof (cases "map_of (tanks s) pid")
    case None
    then show ?thesis by (simp add: credit_owner_def x keeps_ok_refl)
  next
    case (Some t)
    have "tank_ok t \<longrightarrow> tank_ok (fold (credit dt) fts t)"
      using fold_credit_ok [OF assms] by blast
    from keeps_ok_put_tank [OF Some this]
    show ?thesis by (simp add: credit_owner_def x Some keeps_ok_refl)
  qed
qed

lemma generate_resources_ok:
  assumes "0 \<le> dt"
  shows "keeps_ok (tanks s) (tanks (generate_resources dt s))"
proof -
  have "keeps_ok (tanks u) (tanks (fold (credit_owner dt) xs u))" for xs u
  proof (induction xs arbitrary: u)
    case Nil
    show ?case by (simp add: keeps_ok_refl)
  next
    case (Cons x xs)
    from keeps_ok_trans [OF credit_owner_ok [OF assms, of u x] Cons.IH [of "credit_owner dt x u"]]
    show ?case by simp
  qed
  then show ?thesis by (simp add: generate_resources_def)
qed

subsection \<open>Respawn and match reset keep the bounds\<close>

lemma respawn_tank_ok: "tank_ok t \<longrightarrow> tank_ok (fst (respawn_tank g dt t i))"
  by (simp add: respawn_tank_def tank_ok_def Let_def)

lemma check_respawns_list_ok: "keeps_ok ts (fst (check_respawns_list g dt ts i))"
proof (induction ts arbitrary: i)
  case Nil
  show ?case by (simp add: keeps_ok_refl)
next
  case (Cons x ts)
  obtain p t where x: "x = (p, t)" by (cases x)
  from respawn_tank_ok [of t g dt i] Cons.IH [of "snd (respawn_tank g dt t i)"]
  show ?case by (simp add: x case_prod_beta Let_def keeps_ok_Cons)
qed

lemma check_respawns_ok: "keeps_ok (tanks s) (tanks (fst (check_respawns g dt (s, i))))"
  using check_respawns_list_ok [of "tanks s" g dt i]
  by (simp add: check_respawns_def case_prod_beta Let_def)

lemma reset_tank_ok: "tank_ok (reset_tank t)"
  by (simp add: reset_tank_def tank_ok_def constants)

lemma reset_match_ok: "keeps_ok (tanks s) (tanks (reset_match s))"
  by (simp add: reset_match_def keeps_ok_map reset_tank_ok)

subsection \<open>The whole tick\<close>

lemma tick_update_ok:
  assumes "0 < dt"
    and "\<forall>x \<in> set (tanks s). 0 \<le> move_speed (snd x)"
    and "\<forall>x \<in> set (shells s). 0 \<le> damage (snd x) \<and> 0 \<le> speed (snd x)"
    and "\<forall>j. 0 \<le> g j \<and> g j \<le> 1"
  shows "\<exists>s' i'. tick_update g now dt (s, i) = Some (s', i') \<and> keeps_ok (tanks s) (tanks s')"
proof -
  define s1 where "s1 = match_countdown dt s"
  have t1: "tanks s1 = tanks s" and sh1: "shells s1 = shells s"
    by (simp_all add: s1_def match_countdown_def end_match_def Let_def)
  show ?thesis
  proof (cases "match_over s1")
    case True
    define s2 where "s2 = s1\<lparr>post_match_timer := post_match_timer s1 - dt\<rparr>"
    have t2: "tanks s2 = tanks s" by (simp add: s2_def t1)
    have "keeps_ok (tanks s) (tanks (if post_match_timer s2 \<le> 0 then reset_match s2 else s2))"
      using reset_match_ok [of s2] keeps_ok_refl [of "tanks s"] t2 by simp
    moreover have "tick_update g now dt (s, i) =
        Some (if post_match_timer s2 \<le> 0 then reset_match s2 else s2, i)"
      using True by (simp add: tick_update_def Let_def s1_def [symmetric] s2_def)
    ultimately show ?thesis by blast
  next
    case False
    have "\<forall>x \<in> set (tanks s1). 0 \<le> move_speed (snd x) * dt"
      unfolding t1 using assms(1,2) by simp
    from move_tanks_list_ok [OF this] obtain ts where
      ts: "move_tanks_list dt (tanks s1) = Some ts" and k2: "keeps_ok (tanks s1) ts"
      by blast
    define s2 where "s2 = s1\<lparr>tanks := ts\<rparr>"
    have m2: "move_tanks dt s1 = Some s2" by (simp add: move_tanks_def ts s2_def)
    have "\<forall>x \<in> set (shells s2). 0 \<le> damage (snd x) \<and> 0 \<le> speed (snd x) * dt"
      using assms(1,3) sh1 by (simp add: s2_def)
    moreover have "\<forall>j. 0 \<le> g j" using assms(4) by simp
    ultimately obtain s3 i3 where
      m3: "move_shells g now dt (s2, i) = Some (s3, i3)" and k3: "keeps_ok (tanks s2) (tanks s3)"
      using move_shells_ok [of s2 dt g now i] by blast
    define s4 where "s4 = update_captures now dt s3"
    define s5 where "s5 = generate_resources dt s4"
    define r where "r = check_respawns g dt (s5, i3)"
    have k4: "keeps_ok (tanks s3) (tanks s4)"
      unfolding s4_def by (rule update_captures_tanks_ok)
    have k5: "keeps_ok (tanks s4) (tanks s5)"
      unfolding s5_def using assms(1) by (intro generate_resources_ok) simp
    have k6: "keeps_ok (tanks s5) (tanks (fst r))"
      unfolding r_def by (rule check_respawns_ok)
    have "keeps_ok (tanks s) (tanks s2)" using k2 t1 by (simp add: s2_def)
    from keeps_ok_trans [OF keeps_ok_trans [OF keeps_ok_trans [OF keeps_ok_trans [OF this k3] k4] k5] k6]
    have k: "keeps_ok (tanks s) (tanks ((fst r)\<lparr>tick_counter := tick_counter (fst r) + 1\<rparr>))"
      by simp
    have "tick_update g now dt (s, i)
            = Some ((fst r)\<lparr>tick_counter := tick_counter (fst r) + 1\<rparr>, snd r)"
      using False m2 m3
      by (simp add: tick_update_def Let_def s1_def [symmetric] case_prod_beta
          r_def s5_def s4_def)
    with k show ?thesis by blast
  qed
qed

text \<open>
  C4. For every tank and every tick with \<open>dt > 0\<close>: a tank that starts the tick with
  \<open>0 \<le> hp \<le> max_hp\<close> and fuel, ammo and gears within \<open>[0, 120]\<close>, \<open>[0, 100]\<close> and
  \<open>[0, 99]\<close> ends it so. The tick is taken from a state whose tanks have a non-negative
  speed and whose shells have a non-negative speed and damage, as every tank and shell
  the code creates has, and with samples of the random generator in \<open>[0, 1]\<close>; from such
  a state the tick completes.
\<close>

theorem C4_tick_keeps_tank_bounds:
  assumes "0 < dt"
    and "\<forall>x \<in> set (tanks s). 0 \<le> move_speed (snd x)"
    and "\<forall>x \<in> set (shells s). 0 \<le> damage (snd x) \<and> 0 \<le> speed (snd x)"
    and "\<forall>j. 0 \<le> g j \<and> g j \<le> 1"
  shows "\<exists>s' i'. tick_update g now dt (s, i) = Some (s', i')
           \<and> length (tanks s') = length (tanks s)
           \<and> (\<forall>j < length (tanks s).
                 fst (tanks s' ! j) = fst (tanks s ! j)
                 \<and> (tank_ok (snd (tanks s ! j)) \<longrightarrow> tank_ok (snd (tanks s' ! j))))"
proof -
  from tick_update_ok [OF assms] obtain s' i' where
    "tick_update g now dt (s, i) = Some (s', i')" and "keeps_ok (tanks s) (tanks s')"
    by blast
  with keeps_ok_nth [of "tanks s" "tanks s'"] show ?thesis by blast
qed

theorem C4_witness:
  "\<exists>s' i'. tick_update (\<lambda>_. 1 / 2) 5 (1 / 10) (orphan_shell_game, 0) = Some (s', i')
      \<and> length (tanks s') = 1 \<and> fst (tanks s' ! 0) = ''p1'' \<and> tank_ok (snd (tanks s' ! 0))"
proof -
  have h1: "(0::real) < 1 / 10" by simp
  have h2: "\<forall>x \<in> set (tanks orphan_shell_game). 0 \<le> move_speed (snd x)"
    by (simp add: orphan_shell_game_eq weak_tank_def new_tank_def new_game_def constants)
  have h3: "\<forall>x \<in> set (shells orphan_shell_game). 0 \<le> damage (snd x) \<and> 0 \<le> speed (snd x)"
    by (simp add: orphan_shell_game_eq new_shell_def new_tank_def new_game_def
        upgrade_level_def constants)
  have h4: "\<forall>j::nat. (0::real) \<le> (\<lambda>_. 1 / 2) j \<and> (\<lambda>_. 1 / 2) j \<le> (1::real)" by simp
  have t: "tanks orphan_shell_game = [(''p1'', weak_tank)]"
    by (simp add: orphan_shell_game_eq new_game_def)
  have ok: "tank_ok weak_tank"
    by (simp add: tank_ok_def weak_tank_def new_tank_def constants)
  from C4_tick_keeps_tank_bounds [OF h1 h2 h3 h4, of 5 0] obtain s' i' where
    r: "tick_update (\<lambda>_. 1 / 2) 5 (1 / 10) (orphan_shell_game, 0) = Some (s', i')"
    and l: "length (tanks s') = length (tanks orphan_shell_game)"
    and a: "\<forall>j < length (tanks orphan_shell_game).
                 fst (tanks s' ! j) = fst (tanks orphan_shell_game ! j)
                 \<and> (tank_ok (snd (tanks orphan_shell_game ! j)) \<longrightarrow> tank_ok (snd (tanks s' ! j)))"
    by blast
  from a [rule_format, of 0] ok have "fst (tanks s' ! 0) = ''p1'' \<and> tank_ok (snd (tanks s' ! 0))"
    by (simp add: t)
  with r l show ?thesis by (simp add: t)
qed

subsection \<open>The speeds and damages the code creates\<close>

text \<open>
  A new tank has speed 2.5 and shell damage 40, an upgrade lowers neither, and the shell
  of a shot has speed 2.5 and at least the damage of the tank: the side conditions of
  the tick hold in every state built by joining, upgrading and shooting.
\<close>

lemma new_tank_speed_damage:
  "0 \<le> move_speed (new_tank pid sq sr col) \<and> 0 \<le> shell_damage (new_tank pid sq sr col)"
  by (simp add: new_tank_def constants)

lemma apply_effect_speed_damage:
  "move_speed t \<le> move_speed (apply_effect cat t)
   \<and> shell_damage t \<le> shell_damage (apply_effect cat t)"
  by (simp add: apply_effect_def)

lemma new_shell_speed_damage:
  "0 \<le> speed (new_shell now sid pid tq tr t)
   \<and> shell_damage t \<le> damage (new_shell now sid pid tq tr t)"
  by (simp add: new_shell_def constants)

end
